theory Spec2Isabelle
  imports Complex_Main "HOL-Library.Word"
begin

section \<open>JavaScript values used by index.js\<close>

text \<open>
  The service is one file, \<^verbatim>\<open>src/index.js\<close>. Its own code is request plumbing around
  four libraries (multer, pngjs, jpeg-js, tfjs). The embedding keeps that split: the code of
  \<^verbatim>\<open>index.js\<close> is translated line by line, the decoders, the resize primitive and
  the loaded model are parameters (record \<open>libs\<close>, type \<open>model\<close>), and the few tfjs
  and multer primitives with a simple documented behaviour are written out.
\<close>

type_synonym byte = "8 word"

text \<open>
  A thrown JavaScript error, with its \<^verbatim>\<open>message\<close>. \<open>MulterError\<close> carries the
  code and the message multer gives it.
\<close>

datatype js_error =
    Error string
  | TypeError string
  | MulterError string string

fun message :: "js_error \<Rightarrow> string" where
  "message (Error m) = m"
| "message (TypeError m) = m"
| "message (MulterError c m) = m"

text \<open>
  A JavaScript number. Finite values are modelled by the real they denote; the comparison
  and the integrality tests the code relies on are exact on them.
\<close>

datatype jsnum = Fin real | PosInf | NegInf | NaN

text \<open>
  \<^verbatim>\<open>xs[i]\<close> on a Buffer or typed array: \<^verbatim>\<open>undefined\<close> (here \<open>None\<close>) past the
  end, never an exception.
\<close>

definition index :: "'a list \<Rightarrow> nat \<Rightarrow> 'a option" where
  "index xs i = (if i < length xs then Some (xs ! i) else None)"

text \<open>
  \<^verbatim>\<open>v > c\<close> for a number \<open>c\<close>: \<^verbatim>\<open>undefined\<close> converts to NaN, and every
  comparison with NaN is false.
\<close>

fun js_gt :: "jsnum option \<Rightarrow> real \<Rightarrow> bool" where
  "js_gt None c = False"
| "js_gt (Some (Fin x)) c = (c < x)"
| "js_gt (Some PosInf) c = True"
| "js_gt (Some NegInf) c = False"
| "js_gt (Some NaN) c = False"

text \<open>
  \<^verbatim>\<open>a / b\<close> on non-negative integers: JavaScript's \<^verbatim>\<open>/\<close> is the division of
  numbers, not of integers, and division by zero gives Infinity or NaN.
\<close>

definition js_div :: "nat \<Rightarrow> nat \<Rightarrow> jsnum" where
  "js_div a b =
     (if b = 0 then (if a = 0 then NaN else PosInf) else Fin (real a / real b))"

section \<open>Threshold (index.js, lines 75-76)\<close>

text \<open>
  \<^verbatim>\<open>const isCancer = predictions[0] > 0.5;
  return isCancer ? 'Cancer' : 'Non-cancer';\<close>
\<close>

definition isCancer :: "jsnum list \<Rightarrow> bool" where
  "isCancer predictions = js_gt (index predictions 0) (1 / 2)"

definition label :: "jsnum list \<Rightarrow> string" where
  "label predictions = (if isCancer predictions then ''Cancer'' else ''Non-cancer'')"

section \<open>Library calls and their results\<close>

text \<open>
  Every call into a library is recorded, in the order the code makes it; a computation of
  \<^verbatim>\<open>index.js\<close> is the list of calls made so far with either the thrown error
  (\<open>Inl\<close>) or the value (\<open>Inr\<close>). \<open>andThen\<close> is JavaScript's sequencing: a throw
  skips the rest of the \<^verbatim>\<open>try\<close> block.
\<close>

datatype call =
    PngRead
  | JpegDecode
  | Tensor3d "jsnum list"
  | Slice
  | ResizeBilinear "nat list"
  | ExpandDims nat
  | ToFloat
  | Div real
  | ModelPredict

type_synonym 'a res = "call list \<times> (js_error + 'a)"

definition ok :: "'a \<Rightarrow> 'a res" where
  "ok x = ([], Inr x)"

definition call :: "call \<Rightarrow> js_error + 'a \<Rightarrow> 'a res" where
  "call c r = ([c], r)"

definition andThen :: "'a res \<Rightarrow> ('a \<Rightarrow> 'b res) \<Rightarrow> 'b res" where
  "andThen m f =
     (case m of
        (cs, Inl e) \<Rightarrow> (cs, Inl e)
      | (cs, Inr x) \<Rightarrow> (case f x of (ds, r) \<Rightarrow> (cs @ ds, r)))"

section \<open>Decoded images and tensors\<close>

text \<open>What \<^verbatim>\<open>pngjs.sync.read\<close> and \<^verbatim>\<open>jpeg.decode\<close> return: the code reads
  \<^verbatim>\<open>width\<close>, \<^verbatim>\<open>height\<close> and the interleaved samples \<^verbatim>\<open>data\<close>.\<close>

record image =
  width :: nat
  height :: nat
  data :: "byte list"

datatype dtype = Int32 | Float32

text \<open>A tfjs tensor: its shape, its dtype and its samples in row-major order. A sample
  is a JavaScript number, so it may be NaN or infinite.\<close>

record tensor =
  shape :: "nat list"
  dtype :: dtype
  vals :: "jsnum list"

text \<open>
  The loaded graph model, as the code uses it: \<^verbatim>\<open>loadedModel.predict(tensor).data()\<close>
  gives the output buffer or throws.
\<close>

type_synonym model = "tensor \<Rightarrow> js_error + jsnum list"

text \<open>
  The libraries whose behaviour is not written out: the two decoders, the bilinear resize
  of tfjs and Node's \<^verbatim>\<open>path.extname\<close>.
\<close>

record libs =
  pngRead :: "byte list \<Rightarrow> js_error + image"
  jpegDecode :: "byte list \<Rightarrow> js_error + image"
  resizeBilinear :: "tensor \<Rightarrow> nat list \<Rightarrow> js_error + tensor"
  extname :: "string \<Rightarrow> string"

subsection \<open>The tfjs primitives with a simple contract\<close>

text \<open>
  The error tfjs throws when an argument check fails. Its text is tfjs's own and is never
  observed: \<^verbatim>\<open>predict\<close> replaces every error it catches.
\<close>

definition tf_error :: js_error where
  "tf_error = Error ''tfjs: invalid argument''"

text \<open>A dimension must be a non-negative integer.\<close>

definition as_dim :: "jsnum \<Rightarrow> nat option" where
  "as_dim d =
     (case d of
        Fin r \<Rightarrow> (if 0 \<le> r \<and> r = of_int \<lfloor>r\<rfloor> then Some (nat \<lfloor>r\<rfloor>) else None)
      | _ \<Rightarrow> None)"

text \<open>
  \<^verbatim>\<open>tf.tensor3d(data, shape, dtype)\<close>: throws unless the three dimensions are
  non-negative integers whose product is the number of samples given.
\<close>

definition tensor3d :: "byte list \<Rightarrow> jsnum list \<Rightarrow> dtype \<Rightarrow> js_error + tensor" where
  "tensor3d samples shp dt =
     (case those (map as_dim shp) of
        None \<Rightarrow> Inl tf_error
      | Some dims \<Rightarrow>
          if length dims = 3 \<and> prod_list dims = length samples
          then Inr \<lparr>shape = dims, dtype = dt,
                    vals = map (\<lambda>b. Fin (real (unat b))) samples\<rparr>
          else Inl tf_error)"

text \<open>
  \<^verbatim>\<open>tf.slice(t, [0, 0, 0], [-1, -1, 3])\<close> on a rank-3 tensor: all rows, all columns,
  the first three channels of each pixel.
\<close>

definition sliceRGB :: "tensor \<Rightarrow> js_error + tensor" where
  "sliceRGB t =
     (case shape t of
        [h, w, c] \<Rightarrow>
          if 3 \<le> c
          then Inr (t\<lparr>shape := [h, w, 3],
                      vals := map (\<lambda>i. vals t ! (i div 3 * c + i mod 3)) [0..<h * w * 3]\<rparr>)
          else Inl tf_error
      | _ \<Rightarrow> Inl tf_error)"

text \<open>\<^verbatim>\<open>t.expandDims(0)\<close>, \<^verbatim>\<open>t.toFloat()\<close> and \<^verbatim>\<open>t.div(255)\<close>.\<close>

definition expandDims :: "tensor \<Rightarrow> tensor" where
  "expandDims t = t\<lparr>shape := 1 # shape t\<rparr>"

definition toFloat :: "tensor \<Rightarrow> tensor" where
  "toFloat t = t\<lparr>dtype := Float32\<rparr>"

text \<open>A JavaScript number divided by a finite number \<open>d\<close>.\<close>

fun divNum :: "jsnum \<Rightarrow> real \<Rightarrow> jsnum" where
  "divNum (Fin x) d =
     (if d = 0 then (if x = 0 then NaN else if 0 < x then PosInf else NegInf)
      else Fin (x / d))"
| "divNum PosInf d = (if d < 0 then NegInf else PosInf)"
| "divNum NegInf d = (if d < 0 then PosInf else NegInf)"
| "divNum NaN d = NaN"

definition divScalar :: "tensor \<Rightarrow> real \<Rightarrow> tensor" where
  "divScalar t d = t\<lparr>vals := map (\<lambda>v. divNum v d) (vals t)\<rparr>"

section \<open>predict (index.js, lines 48-81)\<close>

text \<open>Line 53: the header test. \<^verbatim>\<open>===\<close> against a number is false on
  \<^verbatim>\<open>undefined\<close>.\<close>

definition isPngHeader :: "byte list \<Rightarrow> bool" where
  "isPngHeader imageBuffer =
     (index imageBuffer 0 = Some 137 \<and> index imageBuffer 1 = Some 80 \<and>
      index imageBuffer 2 = Some 78 \<and> index imageBuffer 3 = Some 71)"

text \<open>Lines 54-56: the PNG branch.\<close>

definition decodePng :: "libs \<Rightarrow> byte list \<Rightarrow> tensor res" where
  "decodePng L imageBuffer =
     andThen (call PngRead (pngRead L imageBuffer)) (\<lambda>png.
       let shp = [Fin (real (height png)), Fin (real (width png)), Fin 4]
       in call (Tensor3d shp) (tensor3d (data png) shp Int32))"

text \<open>Lines 58-59: the other branch; the third dimension is
  \<^verbatim>\<open>data.length / (width * height)\<close>.\<close>

definition channels :: "image \<Rightarrow> jsnum" where
  "channels img = js_div (length (data img)) (width img * height img)"

definition decodeJpeg :: "libs \<Rightarrow> byte list \<Rightarrow> tensor res" where
  "decodeJpeg L imageBuffer =
     andThen (call JpegDecode (jpegDecode L imageBuffer)) (\<lambda>jpg.
       let shp = [Fin (real (height jpg)), Fin (real (width jpg)), channels jpg]
       in call (Tensor3d shp) (tensor3d (data jpg) shp Int32))"

definition decodeImage :: "libs \<Rightarrow> byte list \<Rightarrow> tensor res" where
  "decodeImage L imageBuffer =
     (if isPngHeader imageBuffer then decodePng L imageBuffer
      else decodeJpeg L imageBuffer)"

text \<open>Lines 63-65: drop the alpha channel.\<close>

definition dropAlpha :: "tensor \<Rightarrow> tensor res" where
  "dropAlpha inputTensor =
     (if index (shape inputTensor) 2 = Some 4 then call Slice (sliceRGB inputTensor)
      else ok inputTensor)"

text \<open>Lines 63-71: slice, resize, then
  \<^verbatim>\<open>resizedImage.expandDims(0).toFloat().div(255)\<close>.\<close>

definition preprocess :: "libs \<Rightarrow> tensor \<Rightarrow> tensor res" where
  "preprocess L inputTensor =
     andThen (dropAlpha inputTensor) (\<lambda>rgb.
     andThen (call (ResizeBilinear [224, 224]) (resizeBilinear L rgb [224, 224]))
       (\<lambda>resizedImage.
     andThen (call (ExpandDims 0) (Inr (expandDims resizedImage))) (\<lambda>batched.
     andThen (call ToFloat (Inr (toFloat batched))) (\<lambda>floated.
     call (Div 255) (Inr (divScalar floated 255))))))"

text \<open>Line 74: \<^verbatim>\<open>loadedModel.predict\<close> throws a TypeError while
  \<^verbatim>\<open>loadedModel\<close> is still \<^verbatim>\<open>undefined\<close>; no call is made then.\<close>

definition infer :: "model option \<Rightarrow> tensor \<Rightarrow> jsnum list res" where
  "infer loadedModel t =
     (case loadedModel of
        None \<Rightarrow> ([], Inl (TypeError ''Cannot read properties of undefined''))
      | Some m \<Rightarrow> call ModelPredict (m t))"

text \<open>Lines 50-76: the body of the \<^verbatim>\<open>try\<close> block.\<close>

definition predictTry :: "libs \<Rightarrow> model option \<Rightarrow> byte list \<Rightarrow> string res" where
  "predictTry L loadedModel imageBuffer =
     andThen (decodeImage L imageBuffer) (\<lambda>inputTensor.
     andThen (preprocess L inputTensor) (\<lambda>t.
     andThen (infer loadedModel t) (\<lambda>predictions.
     ok (label predictions))))"

text \<open>Lines 77-80: whatever was thrown is logged and replaced by a new error with a
  fixed message.\<close>

definition predict :: "libs \<Rightarrow> model option \<Rightarrow> byte list \<Rightarrow> string res" where
  "predict L loadedModel imageBuffer =
     (case predictTry L loadedModel imageBuffer of
        (cs, Inl err) \<Rightarrow> (cs, Inl (Error ''Error processing image for prediction.''))
      | (cs, Inr result) \<Rightarrow> (cs, Inr result))"




section \<open>Upload validation (index.js, lines 16-30)\<close>

text \<open>The file part of the multipart form, as multer hands it to \<^verbatim>\<open>fileFilter\<close> and,
  once stored in memory, to the route as \<^verbatim>\<open>req.file\<close>.\<close>

record upload =
  mimetype :: string
  originalname :: string
  buffer :: "byte list"

definition startsWith :: "string \<Rightarrow> string \<Rightarrow> bool" where
  "startsWith s p = (take (length p) s = p)"

text \<open>\<^verbatim>\<open>toLowerCase\<close> on the letters A-Z; no other character lowers to a character of
  the three extensions.\<close>

definition lowerChar :: "char \<Rightarrow> char" where
  "lowerChar c =
     (let n = (of_char c :: nat)
      in if of_char CHR ''A'' \<le> n \<and> n \<le> of_char CHR ''Z'' then char_of (n + 32) else c)"

definition toLowerCase :: "string \<Rightarrow> string" where
  "toLowerCase s = map lowerChar s"

definition fileFilter :: "libs \<Rightarrow> upload \<Rightarrow> js_error + bool" where
  "fileFilter L file =
     (if \<not> startsWith (mimetype file) ''image/''
      then Inl (Error ''Only image files are allowed!'')
      else
        let ext = toLowerCase (extname L (originalname file))
        in if ext \<notin> set [''.jpg'', ''.jpeg'', ''.png'']
           then Inl (Error ''Only JPG, JPEG, and PNG files are allowed!'')
           else Inr True)"

definition fileSize :: nat where
  "fileSize = 1000000"

text \<open>
  \<^verbatim>\<open>upload.single('image')\<close>. With no file in the field multer leaves
  \<^verbatim>\<open>req.file\<close> undefined and goes on; with a file it asks \<^verbatim>\<open>fileFilter\<close> first,
  then reads the file and gives up with its own error once more than
  \<^verbatim>\<open>limits.fileSize\<close> bytes have come. An error goes to Express's error handling, not
  to the route.
\<close>

definition uploadSingle :: "libs \<Rightarrow> upload option \<Rightarrow> js_error + upload option" where
  "uploadSingle L part =
     (case part of
        None \<Rightarrow> Inr None
      | Some file \<Rightarrow>
          (case fileFilter L file of
             Inl err \<Rightarrow> Inl err
           | Inr accept \<Rightarrow>
               if \<not> accept then Inr None
               else if fileSize < length (buffer file)
               then Inl (MulterError ''LIMIT_FILE_SIZE'' ''File too large'')
               else Inr (Some file)))"

section \<open>Routes (index.js, lines 84-135)\<close>

datatype json = JString string | JObject "(string \<times> json) list"

datatype payload = JsonBody json | TextBody string

record response =
  statusCode :: nat
  body :: payload

text \<open>What a request takes from its surroundings: \<^verbatim>\<open>uuidv4()\<close> and
  \<^verbatim>\<open>new Date().toISOString()\<close>.\<close>

record ambient =
  uuid :: string
  isoNow :: string

definition getRoot :: response where
  "getRoot = \<lparr>statusCode = 200, body = TextBody ''Model is online''\<rparr>"

definition suggestion :: "string \<Rightarrow> string" where
  "suggestion result =
     (if result = ''Cancer'' then ''Segera periksa ke dokter!''
      else ''Penyakit kanker tidak terdeteksi.'')"

text \<open>Lines 88-126: the route's function, given \<^verbatim>\<open>req.file\<close>.\<close>

definition predictHandler ::
  "libs \<Rightarrow> model option \<Rightarrow> ambient \<Rightarrow> upload option \<Rightarrow> call list \<times> response" where
  "predictHandler L loadedModel amb file =
     (case file of
        None \<Rightarrow>
          ([], \<lparr>statusCode = 400,
                body = JsonBody (JObject
                  [(''status'', JString ''fail''),
                   (''message'', JString ''No file uploaded'')])\<rparr>)
      | Some f \<Rightarrow>
          (case predict L loadedModel (buffer f) of
             (cs, Inr result) \<Rightarrow>
               (cs, \<lparr>statusCode = 200,
                     body = JsonBody (JObject
                       [(''status'', JString ''success''),
                        (''message'', JString ''Prediction completed successfully''),
                        (''data'', JObject
                           [(''id'', JString (uuid amb)),
                            (''result'', JString result),
                            (''suggestion'', JString (suggestion result)),
                            (''createdAt'', JString (isoNow amb))])])\<rparr>)
           | (cs, Inl err) \<Rightarrow>
               (cs, \<lparr>statusCode = 500,
                     body = JsonBody (JObject
                       [(''status'', JString ''fail''),
                        (''message'', JString ''Terjadi kesalahan dalam melakukan prediksi''),
                        (''error'', JString (message err))])\<rparr>)))"

text \<open>Lines 129-135: the error-handling middleware.\<close>

definition errorMiddleware :: "js_error \<Rightarrow> response" where
  "errorMiddleware err =
     \<lparr>statusCode = 400,
      body = JsonBody (JObject
        [(''status'', JString ''fail''), (''message'', JString (message err))])\<rparr>"

text \<open>\<^verbatim>\<open>POST /predict\<close>: multer first, then the route or the error middleware.\<close>

definition postPredict ::
  "libs \<Rightarrow> model option \<Rightarrow> ambient \<Rightarrow> upload option \<Rightarrow> call list \<times> response" where
  "postPredict L loadedModel amb part =
     (case uploadSingle L part of
        Inl err \<Rightarrow> ([], errorMiddleware err)
      | Inr file \<Rightarrow> predictHandler L loadedModel amb file)"

section \<open>The process (index.js, lines 33-45 and 138-141)\<close>

text \<open>
  The state of the process: whether the server is listening, how often
  \<^verbatim>\<open>loadModel\<close> has been called, whether its \<^verbatim>\<open>await\<close> is pending, the variable
  \<^verbatim>\<open>loadedModel\<close>, and the exit code once \<^verbatim>\<open>process.exit\<close> has run.
\<close>

record server =
  listening :: bool
  loadCalls :: nat
  loading :: bool
  loadedModel :: "model option"
  exitCode :: "nat option"

text \<open>
  What the event loop delivers: the port is bound (Node then runs the callback given to
  \<^verbatim>\<open>app.listen\<close>), \<^verbatim>\<open>tf.loadGraphModel\<close> settles with a model or an error, or a
  request comes in.
\<close>

datatype event =
    Listening
  | LoadSettled "js_error + model"
  | Get
  | Post "upload option" ambient

definition boot :: server where
  "boot = \<lparr>listening = False, loadCalls = 0, loading = False, loadedModel = None,
           exitCode = None\<rparr>"

text \<open>\<^verbatim>\<open>loadModel\<close> up to its \<^verbatim>\<open>await\<close> (lines 36-39), and from there on
  (lines 39-44).\<close>

definition loadModelStart :: "server \<Rightarrow> server" where
  "loadModelStart s = s\<lparr>loadCalls := Suc (loadCalls s), loading := True\<rparr>"

definition loadModelSettle :: "server \<Rightarrow> js_error + model \<Rightarrow> server" where
  "loadModelSettle s r =
     (case r of
        Inr m \<Rightarrow> s\<lparr>loadedModel := Some m, loading := False\<rparr>
      | Inl err \<Rightarrow> s\<lparr>exitCode := Some 1, loading := False\<rparr>)"

text \<open>
  One event. A process that has exited does nothing more; the callback of
  \<^verbatim>\<open>app.listen\<close> runs once, when the server starts listening; a request is answered
  only by a listening server.
\<close>

definition step :: "libs \<Rightarrow> server \<Rightarrow> event \<Rightarrow> server \<times> (call list \<times> response) option" where
  "step L s e =
     (if exitCode s \<noteq> None then (s, None)
      else case e of
        Listening \<Rightarrow>
          if listening s then (s, None)
          else (loadModelStart (s\<lparr>listening := True\<rparr>), None)
      | LoadSettled r \<Rightarrow>
          if loading s then (loadModelSettle s r, None) else (s, None)
      | Get \<Rightarrow>
          if listening s then (s, Some ([], getRoot)) else (s, None)
      | Post part amb \<Rightarrow>
          if listening s then (s, Some (postPredict L (loadedModel s) amb part))
          else (s, None))"

fun run :: "libs \<Rightarrow> server \<Rightarrow> event list \<Rightarrow> server" where
  "run L s [] = s"
| "run L s (e # es) = run L (fst (step L s e)) es"

text \<open>
  What holds in every state the process reaches: \<^verbatim>\<open>loadModel\<close> has been called once
  if the server listens and not at all otherwise; a pending load, a loaded model and an
  exit are found only on a listening server.
\<close>

definition startup_inv :: "server \<Rightarrow> bool" where
  "startup_inv s =
     (loadCalls s = (if listening s then 1 else 0)
      \<and> (loading s \<longrightarrow> listening s \<and> loadedModel s = None \<and> exitCode s = None)
      \<and> (loadedModel s \<noteq> None \<longrightarrow> listening s \<and> exitCode s = None)
      \<and> (exitCode s \<noteq> None \<longrightarrow> exitCode s = Some 1 \<and> listening s))"

section \<open>Sample libraries\<close>

text \<open>
  Small stand-ins for the libraries, used where a statement is evaluated on a concrete
  input. The sample decoders read a toy format: a PNG is the four header bytes followed by
  the RGBA samples of one pixel; anything else is a width byte, a height byte and the
  samples. The sample resize is the bilinear resize of a 1 x 1 image, which repeats its
  only pixel; the sample \<^verbatim>\<open>extname\<close> is the suffix from the last dot.
\<close>

definition samplePng :: "byte list \<Rightarrow> js_error + image" where
  "samplePng b =
     (if length b = 8 then Inr \<lparr>width = 1, height = 1, data = drop 4 b\<rparr>
      else Inl (Error ''Invalid file signature''))"

definition sampleJpeg :: "byte list \<Rightarrow> js_error + image" where
  "sampleJpeg b =
     (case b of
        w # h # samples \<Rightarrow> Inr \<lparr>width = unat w, height = unat h, data = samples\<rparr>
      | _ \<Rightarrow> Inl (Error ''SOI not found''))"

definition sampleResize :: "tensor \<Rightarrow> nat list \<Rightarrow> js_error + tensor" where
  "sampleResize t sz =
     (case (shape t, sz) of
        ([h, w, c], [oh, ow]) \<Rightarrow>
          if h = 1 \<and> w = 1 \<and> length (vals t) = c
          then Inr \<lparr>shape = [oh, ow, c], dtype = Float32,
                    vals = concat (replicate (oh * ow) (vals t))\<rparr>
          else Inl (Error ''sample resize: not a 1 x 1 image'')
      | _ \<Rightarrow> Inl (Error ''sample resize: not a 1 x 1 image''))"

definition sampleExtname :: "string \<Rightarrow> string" where
  "sampleExtname s =
     (if CHR ''.'' \<in> set s
      then CHR ''.'' # rev (takeWhile (\<lambda>c. c \<noteq> CHR ''.'') (rev s))
      else [])"

definition sampleLibs :: libs where
  "sampleLibs = \<lparr>pngRead = samplePng, jpegDecode = sampleJpeg,
                 resizeBilinear = sampleResize, extname = sampleExtname\<rparr>"

text \<open>The sample model gives the first sample of its input as the probability.\<close>

definition sampleModel :: model where
  "sampleModel t = Inr (take 1 (vals t))"

section \<open>The decoder\<close>

lemma isPngHeader_take: "isPngHeader b = (take 4 b = [137, 80, 78, 71])"
proof (cases b)
  case Nil then show ?thesis by (simp add: isPngHeader_def index_def)
next
  case (Cons b0 r0)
  show ?thesis
  proof (cases r0)
    case Nil with Cons show ?thesis by (simp add: isPngHeader_def index_def)
  next
    case (Cons b1 r1)
    note c1 = this
    show ?thesis
    proof (cases r1)
      case Nil with c1 \<open>b = b0 # r0\<close> show ?thesis by (simp add: isPngHeader_def index_def)
    next
      case (Cons b2 r2)
      note c2 = this
      show ?thesis
      proof (cases r2)
        case Nil with c1 c2 \<open>b = b0 # r0\<close> show ?thesis by (simp add: isPngHeader_def index_def)
      next
        case (Cons b3 r3)
        with c1 c2 \<open>b = b0 # r0\<close> show ?thesis
          by (simp add: isPngHeader_def index_def) 
      qed
    qed
  qed
qed

lemma as_dim_nat: "as_dim (Fin (real n)) = Some n"
  by (simp add: as_dim_def)

lemma as_dim_4: "as_dim (Fin 4) = Some 4"
  using as_dim_nat [of 4] by simp

lemma decodePng_shape:
  assumes "decodePng L b = (cs, Inr t)"
  shows "\<exists>png. pngRead L b = Inr png \<and> shape t = [height png, width png, 4]
           \<and> cs = [PngRead, Tensor3d [Fin (real (height png)), Fin (real (width png)), Fin 4]]
           \<and> dtype t = Int32"
  using assms
  by (auto simp: decodePng_def andThen_def call_def tensor3d_def Let_def as_dim_nat as_dim_4
      split: sum.splits if_splits prod.splits)

lemma decodePng_first: "hd (fst (decodePng L b)) = PngRead"
  by (auto simp: decodePng_def andThen_def call_def split: sum.splits prod.splits)

lemma decodeJpeg_first: "hd (fst (decodeJpeg L b)) = JpegDecode"
  by (auto simp: decodeJpeg_def andThen_def call_def split: sum.splits prod.splits)

lemma decodeJpeg_no_png: "PngRead \<notin> set (fst (decodeJpeg L b))"
  by (auto simp: decodeJpeg_def andThen_def call_def Let_def split: sum.splits prod.splits)

lemma decodePng_no_jpeg: "JpegDecode \<notin> set (fst (decodePng L b))"
  by (auto simp: decodePng_def andThen_def call_def Let_def split: sum.splits prod.splits)

lemma decodePng_eq:
  "decodePng L b =
     (case pngRead L b of
        Inl e \<Rightarrow> ([PngRead], Inl e)
      | Inr png \<Rightarrow>
          ([PngRead, Tensor3d [Fin (real (height png)), Fin (real (width png)), Fin 4]],
           if length (data png) = height png * width png * 4
           then Inr \<lparr>shape = [height png, width png, 4], dtype = Int32,
                     vals = map (\<lambda>x. Fin (real (unat x))) (data png)\<rparr>
           else Inl tf_error))"
  by (auto simp: decodePng_def andThen_def call_def tensor3d_def Let_def as_dim_nat as_dim_4
      split: sum.splits)

lemma decodeJpeg_eq:
  "decodeJpeg L b =
     (case jpegDecode L b of
        Inl e \<Rightarrow> ([JpegDecode], Inl e)
      | Inr jpg \<Rightarrow>
          ([JpegDecode,
            Tensor3d [Fin (real (height jpg)), Fin (real (width jpg)), channels jpg]],
           tensor3d (data jpg)
             [Fin (real (height jpg)), Fin (real (width jpg)), channels jpg] Int32))"
  by (auto simp: decodeJpeg_def andThen_def call_def Let_def split: sum.splits)

text \<open>
  C5. The decoder looks at the first four bytes. Exactly when they are 137, 80, 78, 71
  the buffer goes to the PNG decoder: an error of the decoder is thrown on, and a decoded
  image of width * height * 4 samples is turned into the \<^verbatim>\<open>int32\<close> tensor of shape
  [height, width, 4] that holds these samples. Every other buffer goes to the JPEG decoder,
  whose image is turned into a tensor with the channel count of the JPEG path.
\<close>

theorem decode_dispatch:
  "isPngHeader b = (take 4 b = [137, 80, 78, 71])
   \<and> decodeImage L b =
       (if take 4 b = [137, 80, 78, 71] then decodePng L b else decodeJpeg L b)
   \<and> (take 4 b = [137, 80, 78, 71] \<longrightarrow>
        hd (fst (decodeImage L b)) = PngRead \<and> JpegDecode \<notin> set (fst (decodeImage L b)) \<and>
        (\<forall>cs t. decodeImage L b = (cs, Inr t) \<longrightarrow>
           (\<exists>png. pngRead L b = Inr png \<and> shape t = [height png, width png, 4])) \<and>
        decodeImage L b =
          (case pngRead L b of
             Inl e \<Rightarrow> ([PngRead], Inl e)
           | Inr png \<Rightarrow>
               ([PngRead, Tensor3d [Fin (real (height png)), Fin (real (width png)), Fin 4]],
                if length (data png) = height png * width png * 4
                then Inr \<lparr>shape = [height png, width png, 4], dtype = Int32,
                          vals = map (\<lambda>x. Fin (real (unat x))) (data png)\<rparr>
                else Inl tf_error)))
   \<and> (take 4 b \<noteq> [137, 80, 78, 71] \<longrightarrow>
        hd (fst (decodeImage L b)) = JpegDecode \<and> PngRead \<notin> set (fst (decodeImage L b)) \<and>
        decodeImage L b =
          (case jpegDecode L b of
             Inl e \<Rightarrow> ([JpegDecode], Inl e)
           | Inr jpg \<Rightarrow>
               ([JpegDecode,
                 Tensor3d [Fin (real (height jpg)), Fin (real (width jpg)), channels jpg]],
                tensor3d (data jpg)
                  [Fin (real (height jpg)), Fin (real (width jpg)), channels jpg] Int32)))"
proof -
  have d: "decodeImage L b =
       (if take 4 b = [137, 80, 78, 71] then decodePng L b else decodeJpeg L b)"
    by (simp add: decodeImage_def isPngHeader_take)
  have p: "take 4 b = [137, 80, 78, 71] \<longrightarrow>
        hd (fst (decodeImage L b)) = PngRead \<and> JpegDecode \<notin> set (fst (decodeImage L b)) \<and>
        (\<forall>cs t. decodeImage L b = (cs, Inr t) \<longrightarrow>
           (\<exists>png. pngRead L b = Inr png \<and> shape t = [height png, width png, 4])) \<and>
        decodeImage L b =
          (case pngRead L b of
             Inl e \<Rightarrow> ([PngRead], Inl e)
           | Inr png \<Rightarrow>
               ([PngRead, Tensor3d [Fin (real (height png)), Fin (real (width png)), Fin 4]],
                if length (data png) = height png * width png * 4
                then Inr \<lparr>shape = [height png, width png, 4], dtype = Int32,
                          vals = map (\<lambda>x. Fin (real (unat x))) (data png)\<rparr>
                else Inl tf_error))"
  proof
    assume h: "take 4 b = [137, 80, 78, 71]"
    with d have e: "decodeImage L b = decodePng L b" by simp
    from e decodePng_first [of L b] have 1: "hd (fst (decodeImage L b)) = PngRead" by simp
    from e decodePng_no_jpeg [of L b] have 2: "JpegDecode \<notin> set (fst (decodeImage L b))"
      by simp
    from e decodePng_shape [of L b] have 3: "\<forall>cs t. decodeImage L b = (cs, Inr t) \<longrightarrow>
           (\<exists>png. pngRead L b = Inr png \<and> shape t = [height png, width png, 4])"
      by auto
    from e decodePng_eq [of L b] have 4: "decodeImage L b =
          (case pngRead L b of
             Inl e \<Rightarrow> ([PngRead], Inl e)
           | Inr png \<Rightarrow>
               ([PngRead, Tensor3d [Fin (real (height png)), Fin (real (width png)), Fin 4]],
                if length (data png) = height png * width png * 4
                then Inr \<lparr>shape = [height png, width png, 4], dtype = Int32,
                          vals = map (\<lambda>x. Fin (real (unat x))) (data png)\<rparr>
                else Inl tf_error))"
      by simp
    from 1 2 3 4 show "hd (fst (decodeImage L b)) = PngRead \<and> JpegDecode \<notin> set (fst (decodeImage L b)) \<and>
        (\<forall>cs t. decodeImage L b = (cs, Inr t) \<longrightarrow>
           (\<exists>png. pngRead L b = Inr png \<and> shape t = [height png, width png, 4])) \<and>
        decodeImage L b =
          (case pngRead L b of
             Inl e \<Rightarrow> ([PngRead], Inl e)
           | Inr png \<Rightarrow>
               ([PngRead, Tensor3d [Fin (real (height png)), Fin (real (width png)), Fin 4]],
                if length (data png) = height png * width png * 4
                then Inr \<lparr>shape = [height png, width png, 4], dtype = Int32,
                          vals = map (\<lambda>x. Fin (real (unat x))) (data png)\<rparr>
                else Inl tf_error))"
      by blast
  qed
  have j: "take 4 b \<noteq> [137, 80, 78, 71] \<longrightarrow>
        hd (fst (decodeImage L b)) = JpegDecode \<and> PngRead \<notin> set (fst (decodeImage L b)) \<and>
        decodeImage L b =
          (case jpegDecode L b of
             Inl e \<Rightarrow> ([JpegDecode], Inl e)
           | Inr jpg \<Rightarrow>
               ([JpegDecode,
                 Tensor3d [Fin (real (height jpg)), Fin (real (width jpg)), channels jpg]],
                tensor3d (data jpg)
                  [Fin (real (height jpg)), Fin (real (width jpg)), channels jpg] Int32))"
    using decodeJpeg_first [of L b] decodeJpeg_no_png [of L b] decodeJpeg_eq [of L b]
    by (simp add: d)
  from isPngHeader_take [of b] d p j show ?thesis by blast
qed

lemma sample_png_read:
  "pngRead sampleLibs [137, 80, 78, 71, 200, 100, 50, 255]
     = Inr \<lparr>width = 1, height = 1, data = [200, 100, 50, 255]\<rparr>"
  by (simp add: sampleLibs_def samplePng_def)

lemma sample_png_decode:
  "decodeImage sampleLibs [137, 80, 78, 71, 200, 100, 50, 255] =
     ([PngRead, Tensor3d [Fin 1, Fin 1, Fin 4]],
      Inr \<lparr>shape = [1, 1, 4], dtype = Int32,
            vals = [Fin 200, Fin 100, Fin 50, Fin 255]\<rparr>)"
  by (simp add: decodeImage_def isPngHeader_def index_def decodePng_eq sample_png_read)

lemma sample_jpeg_decode:
  "decodeImage sampleLibs [1, 1, 20, 100, 50] =
     ([JpegDecode, Tensor3d [Fin 1, Fin 1, Fin 3]],
      Inr \<lparr>shape = [1, 1, 3], dtype = Int32, vals = [Fin 20, Fin 100, Fin 50]\<rparr>)"
  by (simp add: decodeImage_def isPngHeader_def index_def decodeJpeg_def andThen_def call_def
      sampleLibs_def sampleJpeg_def tensor3d_def as_dim_def Let_def channels_def js_div_def)

theorem decode_dispatch_witness:
  "take 4 [137, 80, 78, 71, 200, 100, 50, 255 :: byte] = [137, 80, 78, 71]
   \<and> decodeImage sampleLibs [137, 80, 78, 71, 200, 100, 50, 255] =
       ([PngRead, Tensor3d [Fin 1, Fin 1, Fin 4]],
        Inr \<lparr>shape = [1, 1, 4], dtype = Int32,
              vals = [Fin 200, Fin 100, Fin 50, Fin 255]\<rparr>)
   \<and> take 4 [1, 1, 20, 100, 50 :: byte] \<noteq> [137, 80, 78, 71]
   \<and> hd (fst (decodeImage sampleLibs [1, 1, 20, 100, 50])) = JpegDecode
   \<and> PngRead \<notin> set (fst (decodeImage sampleLibs [1, 1, 20, 100, 50]))"
proof -
  let ?png = "[137, 80, 78, 71, 200, 100, 50, 255 :: byte]"
  have t1: "take 4 ?png = [137, 80, 78, 71]"
    by simp
  have t2: "take 4 [1, 1, 20, 100, 50 :: byte] \<noteq> [137, 80, 78, 71]"
    by simp
  from t1 decode_dispatch [of ?png sampleLibs]
  have "decodeImage sampleLibs ?png =
          (case pngRead sampleLibs ?png of
             Inl e \<Rightarrow> ([PngRead], Inl e)
           | Inr png \<Rightarrow>
               ([PngRead, Tensor3d [Fin (real (height png)), Fin (real (width png)), Fin 4]],
                if length (data png) = height png * width png * 4
                then Inr \<lparr>shape = [height png, width png, 4], dtype = Int32,
                          vals = map (\<lambda>x. Fin (real (unat x))) (data png)\<rparr>
                else Inl tf_error))"
    by blast
  then have p: "decodeImage sampleLibs ?png =
       ([PngRead, Tensor3d [Fin 1, Fin 1, Fin 4]],
        Inr \<lparr>shape = [1, 1, 4], dtype = Int32,
              vals = [Fin 200, Fin 100, Fin 50, Fin 255]\<rparr>)"
    by (simp add: sample_png_read)
  from t2 decode_dispatch [of "[1, 1, 20, 100, 50]" sampleLibs]
  have j: "hd (fst (decodeImage sampleLibs [1, 1, 20, 100, 50])) = JpegDecode
           \<and> PngRead \<notin> set (fst (decodeImage sampleLibs [1, 1, 20, 100, 50]))"
    by blast
  from t1 p t2 j show ?thesis by blast
qed

text \<open>
  C10. The header test yields a truth value on every buffer: it is true exactly when the
  buffer has at least four bytes and they are 137, 80, 78, 71. On a buffer of fewer than
  four bytes the read past the end is \<^verbatim>\<open>undefined\<close>, the test is false, and the
  buffer goes to the JPEG decoder.
\<close>

theorem short_buffer_is_jpeg:
  "isPngHeader b =
     (4 \<le> length b \<and> b ! 0 = 137 \<and> b ! 1 = 80 \<and> b ! 2 = 78 \<and> b ! 3 = 71)
   \<and> (length b < 4 \<longrightarrow>
        index b 3 = None \<and> \<not> isPngHeader b \<and> decodeImage L b = decodeJpeg L b
        \<and> hd (fst (decodeImage L b)) = JpegDecode \<and> PngRead \<notin> set (fst (decodeImage L b)))"
proof -
  have t: "isPngHeader b =
     (4 \<le> length b \<and> b ! 0 = 137 \<and> b ! 1 = 80 \<and> b ! 2 = 78 \<and> b ! 3 = 71)"
    by (auto simp: isPngHeader_def index_def split: if_splits)
  have s: "length b < 4 \<longrightarrow>
        index b 3 = None \<and> \<not> isPngHeader b \<and> decodeImage L b = decodeJpeg L b
        \<and> hd (fst (decodeImage L b)) = JpegDecode \<and> PngRead \<notin> set (fst (decodeImage L b))"
  proof
    assume l: "length b < 4"
    then have i: "index b 3 = None" by (simp add: index_def)
    then have n: "\<not> isPngHeader b" by (simp add: isPngHeader_def)
    then have d: "decodeImage L b = decodeJpeg L b" by (simp add: decodeImage_def)
    from i n d decodeJpeg_first [of L b] decodeJpeg_no_png [of L b]
    show "index b 3 = None \<and> \<not> isPngHeader b \<and> decodeImage L b = decodeJpeg L b
        \<and> hd (fst (decodeImage L b)) = JpegDecode \<and> PngRead \<notin> set (fst (decodeImage L b))"
      by simp
  qed
  from t s show ?thesis by blast
qed

theorem short_buffer_is_jpeg_witness:
  "length ([] :: byte list) < 4 \<and> index ([] :: byte list) 3 = None \<and> \<not> isPngHeader []
   \<and> decodeImage sampleLibs [] = ([JpegDecode], Inl (Error ''SOI not found''))
   \<and> length [137, 80, 78 :: byte] < 4 \<and> \<not> isPngHeader [137, 80, 78]
   \<and> decodeImage sampleLibs [137, 80, 78] = decodeJpeg sampleLibs [137, 80, 78]"
proof -
  have e: "decodeJpeg sampleLibs [] = ([JpegDecode], Inl (Error ''SOI not found''))"
    by (simp add: decodeJpeg_def andThen_def call_def sampleLibs_def sampleJpeg_def)
  have l0: "length ([] :: byte list) < 4" and l3: "length [137, 80, 78 :: byte] < 4"
    by simp_all
  from l0 short_buffer_is_jpeg [of "[]" sampleLibs]
  have a: "index ([] :: byte list) 3 = None \<and> \<not> isPngHeader []
           \<and> decodeImage sampleLibs [] = decodeJpeg sampleLibs []"
    by blast
  from l3 short_buffer_is_jpeg [of "[137, 80, 78]" sampleLibs]
  have b: "\<not> isPngHeader [137, 80, 78]
           \<and> decodeImage sampleLibs [137, 80, 78] = decodeJpeg sampleLibs [137, 80, 78]"
    by blast
  from a b e l0 l3 show ?thesis by simp
qed

section \<open>The channel count on the JPEG path\<close>

text \<open>
  Line 59 divides with JavaScript's \<^verbatim>\<open>/\<close>, which does not truncate. A quotient
  that is not a whole number is refused by \<^verbatim>\<open>tensor3d\<close>, so whenever a tensor
  results the quotient is exact and equals the integer quotient.
\<close>

lemma channels_eq:
  assumes "0 < width img * height img"
  shows "(channels img = Fin (real k)) = (length (data img) = k * (width img * height img))"
proof -
  let ?b = "width img * height img"
  have "(real (length (data img)) / real ?b = real k) = (real (length (data img)) = real (k * ?b))"
    using assms by (simp add: field_simps)
  also have "\<dots> = (length (data img) = k * ?b)" using of_nat_eq_iff by blast
  finally show ?thesis using assms by (simp add: channels_def js_div_def)
qed

lemma as_dim_channels:
  assumes "as_dim (channels img) = Some c"
  shows "0 < width img * height img \<and> length (data img) = c * (width img * height img)"
proof -
  let ?b = "width img * height img"
  let ?a = "length (data img)"
  have pos: "0 < ?b"
  proof (rule ccontr)
    assume "\<not> 0 < ?b"
    then have "?b = 0" by simp
    with assms show False by (simp add: channels_def js_div_def as_dim_def split: if_splits)
  qed
  with assms have "as_dim (Fin (real ?a / real ?b)) = Some c"
    by (simp add: channels_def js_div_def)
  then have "real ?a / real ?b = of_int \<lfloor>real ?a / real ?b\<rfloor>"
    and c: "c = nat \<lfloor>real ?a / real ?b\<rfloor>"
    by (auto simp: as_dim_def split: if_splits)
  moreover have "0 \<le> \<lfloor>real ?a / real ?b\<rfloor>" by simp
  ultimately have "real ?a / real ?b = real c" by simp
  with pos have "real ?a = real (c * ?b)" by (simp add: field_simps)
  then have "?a = c * ?b" using of_nat_eq_iff by blast
  with pos show ?thesis by simp
qed

lemma tensor3d_channels:
  assumes "tensor3d (data img)
             [Fin (real (height img)), Fin (real (width img)), channels img] Int32 = Inr t"
  shows "0 < width img * height img \<and> width img * height img dvd length (data img)
     \<and> channels img = Fin (real (length (data img) div (width img * height img)))
     \<and> t = \<lparr>shape = [height img, width img,
                      length (data img) div (width img * height img)],
            dtype = Int32, vals = map (\<lambda>x. Fin (real (unat x))) (data img)\<rparr>"
proof -
  from assms obtain c where c: "as_dim (channels img) = Some c"
    and t: "t = \<lparr>shape = [height img, width img, c], dtype = Int32,
                 vals = map (\<lambda>x. Fin (real (unat x))) (data img)\<rparr>"
    by (auto simp: tensor3d_def as_dim_nat split: option.splits if_splits)
  from as_dim_channels [OF c] have pos: "0 < width img * height img"
    and len: "length (data img) = c * (width img * height img)" by blast+
  from pos len have d: "length (data img) div (width img * height img) = c" by simp
  from len have dv: "width img * height img dvd length (data img)" by simp
  from pos len have "channels img = Fin (real c)" using channels_eq [OF pos, of c] by simp
  with pos dv d t show ?thesis by simp
qed

lemma tensor3d_exact:
  assumes "0 < width img * height img" and "length (data img) = k * (width img * height img)"
  shows "tensor3d (data img)
           [Fin (real (height img)), Fin (real (width img)), channels img] Int32
         = Inr \<lparr>shape = [height img, width img, k], dtype = Int32,
                vals = map (\<lambda>x. Fin (real (unat x))) (data img)\<rparr>"
proof -
  from assms have "channels img = Fin (real k)" using channels_eq [OF assms(1), of k] by simp
  with assms(2) show ?thesis
    by (simp add: tensor3d_def as_dim_nat mult.commute mult.left_commute)
qed

text \<open>
  C6. On the JPEG path every tensor that results has, as its channel count, the integer
  quotient of the number of samples by width * height, and that division is exact. A
  decoded image with k samples per pixel gives a tensor of shape [height, width, k]: 3
  for three samples per pixel, 4 for four. When width * height is 0 or does not divide the
  number of samples, no tensor results.
\<close>

theorem jpeg_channel_count:
  "(\<forall>cs t. decodeJpeg L b = (cs, Inr t) \<longrightarrow>
      (\<exists>jpg. jpegDecode L b = Inr jpg
         \<and> 0 < width jpg * height jpg
         \<and> width jpg * height jpg dvd length (data jpg)
         \<and> channels jpg = Fin (real (length (data jpg) div (width jpg * height jpg)))
         \<and> cs = [JpegDecode,
                 Tensor3d [Fin (real (height jpg)), Fin (real (width jpg)),
                           Fin (real (length (data jpg) div (width jpg * height jpg)))]]
         \<and> t = \<lparr>shape = [height jpg, width jpg,
                          length (data jpg) div (width jpg * height jpg)],
                dtype = Int32, vals = map (\<lambda>x. Fin (real (unat x))) (data jpg)\<rparr>))
   \<and> (\<forall>jpg k. jpegDecode L b = Inr jpg \<and> 0 < width jpg * height jpg
         \<and> length (data jpg) = k * (width jpg * height jpg) \<longrightarrow>
         length (data jpg) div (width jpg * height jpg) = k
       \<and> decodeJpeg L b =
           ([JpegDecode,
             Tensor3d [Fin (real (height jpg)), Fin (real (width jpg)), Fin (real k)]],
            Inr \<lparr>shape = [height jpg, width jpg, k], dtype = Int32,
                  vals = map (\<lambda>x. Fin (real (unat x))) (data jpg)\<rparr>))
   \<and> (\<forall>jpg. jpegDecode L b = Inr jpg
         \<and> (width jpg * height jpg = 0 \<or> \<not> width jpg * height jpg dvd length (data jpg)) \<longrightarrow>
         snd (decodeJpeg L b) = Inl tf_error)"
proof -
  have 1: "\<forall>cs t. decodeJpeg L b = (cs, Inr t) \<longrightarrow>
      (\<exists>jpg. jpegDecode L b = Inr jpg
         \<and> 0 < width jpg * height jpg
         \<and> width jpg * height jpg dvd length (data jpg)
         \<and> channels jpg = Fin (real (length (data jpg) div (width jpg * height jpg)))
         \<and> cs = [JpegDecode,
                 Tensor3d [Fin (real (height jpg)), Fin (real (width jpg)),
                           Fin (real (length (data jpg) div (width jpg * height jpg)))]]
         \<and> t = \<lparr>shape = [height jpg, width jpg,
                          length (data jpg) div (width jpg * height jpg)],
                dtype = Int32, vals = map (\<lambda>x. Fin (real (unat x))) (data jpg)\<rparr>)"
  proof (intro allI impI)
    fix cs t assume a: "decodeJpeg L b = (cs, Inr t)"
    then obtain jpg where j: "jpegDecode L b = Inr jpg"
      and cs: "cs = [JpegDecode,
            Tensor3d [Fin (real (height jpg)), Fin (real (width jpg)), channels jpg]]"
      and t: "tensor3d (data jpg)
             [Fin (real (height jpg)), Fin (real (width jpg)), channels jpg] Int32 = Inr t"
      by (auto simp: decodeJpeg_eq split: sum.splits)
    from tensor3d_channels [OF t] j cs
    show "\<exists>jpg. jpegDecode L b = Inr jpg
         \<and> 0 < width jpg * height jpg
         \<and> width jpg * height jpg dvd length (data jpg)
         \<and> channels jpg = Fin (real (length (data jpg) div (width jpg * height jpg)))
         \<and> cs = [JpegDecode,
                 Tensor3d [Fin (real (height jpg)), Fin (real (width jpg)),
                           Fin (real (length (data jpg) div (width jpg * height jpg)))]]
         \<and> t = \<lparr>shape = [height jpg, width jpg,
                          length (data jpg) div (width jpg * height jpg)],
                dtype = Int32, vals = map (\<lambda>x. Fin (real (unat x))) (data jpg)\<rparr>"
      by (intro exI [of _ jpg]) simp
  qed
  have 2: "\<forall>jpg k. jpegDecode L b = Inr jpg \<and> 0 < width jpg * height jpg
         \<and> length (data jpg) = k * (width jpg * height jpg) \<longrightarrow>
         length (data jpg) div (width jpg * height jpg) = k
       \<and> decodeJpeg L b =
           ([JpegDecode,
             Tensor3d [Fin (real (height jpg)), Fin (real (width jpg)), Fin (real k)]],
            Inr \<lparr>shape = [height jpg, width jpg, k], dtype = Int32,
                  vals = map (\<lambda>x. Fin (real (unat x))) (data jpg)\<rparr>)"
  proof (intro allI impI)
    fix jpg k
    assume a: "jpegDecode L b = Inr jpg \<and> 0 < width jpg * height jpg
         \<and> length (data jpg) = k * (width jpg * height jpg)"
    then have pos: "0 < width jpg * height jpg"
      and len: "length (data jpg) = k * (width jpg * height jpg)" by blast+
    from pos len have d: "length (data jpg) div (width jpg * height jpg) = k" by simp
    from pos len have ch: "channels jpg = Fin (real k)"
      using channels_eq [OF pos, of k] by simp
    from a tensor3d_exact [OF pos len] ch
    have "decodeJpeg L b =
           ([JpegDecode,
             Tensor3d [Fin (real (height jpg)), Fin (real (width jpg)), Fin (real k)]],
            Inr \<lparr>shape = [height jpg, width jpg, k], dtype = Int32,
                  vals = map (\<lambda>x. Fin (real (unat x))) (data jpg)\<rparr>)"
      by (simp add: decodeJpeg_eq)
    with d show "length (data jpg) div (width jpg * height jpg) = k
       \<and> decodeJpeg L b =
           ([JpegDecode,
             Tensor3d [Fin (real (height jpg)), Fin (real (width jpg)), Fin (real k)]],
            Inr \<lparr>shape = [height jpg, width jpg, k], dtype = Int32,
                  vals = map (\<lambda>x. Fin (real (unat x))) (data jpg)\<rparr>)"
      by blast
  qed
  have 3: "\<forall>jpg. jpegDecode L b = Inr jpg
         \<and> (width jpg * height jpg = 0 \<or> \<not> width jpg * height jpg dvd length (data jpg)) \<longrightarrow>
         snd (decodeJpeg L b) = Inl tf_error"
  proof (intro allI impI)
    fix jpg
    assume a: "jpegDecode L b = Inr jpg
         \<and> (width jpg * height jpg = 0 \<or> \<not> width jpg * height jpg dvd length (data jpg))"
    have "as_dim (channels jpg) = None"
    proof (cases "as_dim (channels jpg)")
      case None then show ?thesis .
    next
      case (Some c)
      from as_dim_channels [OF Some] a show ?thesis by auto
    qed
    with a show "snd (decodeJpeg L b) = Inl tf_error"
      by (simp add: decodeJpeg_eq tensor3d_def as_dim_nat)
  qed
  from 1 2 3 show ?thesis by blast
qed

lemma sample_jpeg_6:
  "jpegDecode sampleLibs [2, 1, 0, 0, 0, 0, 0, 0]
     = Inr \<lparr>width = 2, height = 1, data = [0, 0, 0, 0, 0, 0]\<rparr>"
  by (simp add: sampleLibs_def sampleJpeg_def)

lemma sample_jpeg_7:
  "jpegDecode sampleLibs [2, 1, 0, 0, 0, 0, 0, 0, 0]
     = Inr \<lparr>width = 2, height = 1, data = [0, 0, 0, 0, 0, 0, 0]\<rparr>"
  by (simp add: sampleLibs_def sampleJpeg_def)

lemma sample_jpeg_4:
  "jpegDecode sampleLibs [1, 1, 20, 100, 50, 255]
     = Inr \<lparr>width = 1, height = 1, data = [20, 100, 50, 255]\<rparr>"
  by (simp add: sampleLibs_def sampleJpeg_def)

theorem jpeg_channel_count_witness:
  "decodeJpeg sampleLibs [2, 1, 0, 0, 0, 0, 0, 0] =
     ([JpegDecode, Tensor3d [Fin 1, Fin 2, Fin 3]],
      Inr \<lparr>shape = [1, 2, 3], dtype = Int32,
            vals = [Fin 0, Fin 0, Fin 0, Fin 0, Fin 0, Fin 0]\<rparr>)
   \<and> length [0, 0, 0, 0, 0, 0 :: byte] div (2 * 1) = 3
   \<and> decodeJpeg sampleLibs [1, 1, 20, 100, 50, 255] =
     ([JpegDecode, Tensor3d [Fin 1, Fin 1, Fin 4]],
      Inr \<lparr>shape = [1, 1, 4], dtype = Int32,
            vals = [Fin 20, Fin 100, Fin 50, Fin 255]\<rparr>)
   \<and> snd (decodeJpeg sampleLibs [2, 1, 0, 0, 0, 0, 0, 0, 0]) = Inl tf_error"
proof -
  let ?i6 = "\<lparr>width = 2, height = 1, data = [0, 0, 0, 0, 0, 0 :: byte]\<rparr>"
  let ?i4 = "\<lparr>width = 1, height = 1, data = [20, 100, 50, 255 :: byte]\<rparr>"
  let ?i7 = "\<lparr>width = 2, height = 1, data = [0, 0, 0, 0, 0, 0, 0 :: byte]\<rparr>"
  have h6: "jpegDecode sampleLibs [2, 1, 0, 0, 0, 0, 0, 0] = Inr ?i6
         \<and> 0 < width ?i6 * height ?i6 \<and> length (data ?i6) = 3 * (width ?i6 * height ?i6)"
    by (simp add: sample_jpeg_6)
  have h4: "jpegDecode sampleLibs [1, 1, 20, 100, 50, 255] = Inr ?i4
         \<and> 0 < width ?i4 * height ?i4 \<and> length (data ?i4) = 4 * (width ?i4 * height ?i4)"
    by (simp add: sample_jpeg_4)
  have h7: "jpegDecode sampleLibs [2, 1, 0, 0, 0, 0, 0, 0, 0] = Inr ?i7
         \<and> (width ?i7 * height ?i7 = 0 \<or> \<not> width ?i7 * height ?i7 dvd length (data ?i7))"
    by (simp add: sample_jpeg_7)
  from h6 jpeg_channel_count [of sampleLibs "[2, 1, 0, 0, 0, 0, 0, 0]"]
  have "length (data ?i6) div (width ?i6 * height ?i6) = 3
       \<and> decodeJpeg sampleLibs [2, 1, 0, 0, 0, 0, 0, 0] =
           ([JpegDecode,
             Tensor3d [Fin (real (height ?i6)), Fin (real (width ?i6)), Fin (real 3)]],
            Inr \<lparr>shape = [height ?i6, width ?i6, 3], dtype = Int32,
                  vals = map (\<lambda>x. Fin (real (unat x))) (data ?i6)\<rparr>)"
    by blast
  then have a: "decodeJpeg sampleLibs [2, 1, 0, 0, 0, 0, 0, 0] =
     ([JpegDecode, Tensor3d [Fin 1, Fin 2, Fin 3]],
      Inr \<lparr>shape = [1, 2, 3], dtype = Int32,
            vals = [Fin 0, Fin 0, Fin 0, Fin 0, Fin 0, Fin 0]\<rparr>)"
    and b: "length [0, 0, 0, 0, 0, 0 :: byte] div (2 * 1) = 3"
    by simp_all
  from h4 jpeg_channel_count [of sampleLibs "[1, 1, 20, 100, 50, 255]"]
  have "length (data ?i4) div (width ?i4 * height ?i4) = 4
       \<and> decodeJpeg sampleLibs [1, 1, 20, 100, 50, 255] =
           ([JpegDecode,
             Tensor3d [Fin (real (height ?i4)), Fin (real (width ?i4)), Fin (real 4)]],
            Inr \<lparr>shape = [height ?i4, width ?i4, 4], dtype = Int32,
                  vals = map (\<lambda>x. Fin (real (unat x))) (data ?i4)\<rparr>)"
    by blast
  then have c: "decodeJpeg sampleLibs [1, 1, 20, 100, 50, 255] =
     ([JpegDecode, Tensor3d [Fin 1, Fin 1, Fin 4]],
      Inr \<lparr>shape = [1, 1, 4], dtype = Int32,
            vals = [Fin 20, Fin 100, Fin 50, Fin 255]\<rparr>)"
    by simp
  from h7 jpeg_channel_count [of sampleLibs "[2, 1, 0, 0, 0, 0, 0, 0, 0]"]
  have d: "snd (decodeJpeg sampleLibs [2, 1, 0, 0, 0, 0, 0, 0, 0]) = Inl tf_error"
    by blast
  from a b c d show ?thesis by blast
qed

section \<open>The preprocessor\<close>








lemma preprocess_after_drop:
  assumes "dropAlpha t = (pre, Inr rgb)"
  shows "preprocess L t =
    (case resizeBilinear L rgb [224, 224] of
       Inl e \<Rightarrow> (pre @ [ResizeBilinear [224, 224]], Inl e)
     | Inr r \<Rightarrow> (pre @ [ResizeBilinear [224, 224], ExpandDims 0, ToFloat, Div 255],
                 Inr (divScalar (toFloat (expandDims r)) 255)))"
  using assms by (simp add: preprocess_def andThen_def call_def split: sum.splits)







lemma sample_dropAlpha:
  "dropAlpha \<lparr>shape = [1, 1, 4], dtype = Int32, vals = [Fin 200, Fin 100, Fin 50, Fin 255]\<rparr>
     = ([Slice], Inr \<lparr>shape = [1, 1, 3], dtype = Int32,
                      vals = [Fin 200, Fin 100, Fin 50]\<rparr>)"
  by (simp add: dropAlpha_def index_def call_def sliceRGB_def upt_rec)

lemma sample_resized:
  "\<exists>r. resizeBilinear sampleLibs
          \<lparr>shape = [1, 1, 3], dtype = Int32, vals = [Fin 200, Fin 100, Fin 50]\<rparr>
          [224, 224] = Inr r"
  by (simp add: sampleLibs_def sampleResize_def)

lemma sample_preprocess:
  "\<exists>out. preprocess sampleLibs
            \<lparr>shape = [1, 1, 4], dtype = Int32, vals = [Fin 200, Fin 100, Fin 50, Fin 255]\<rparr>
          = ([Slice, ResizeBilinear [224, 224], ExpandDims 0, ToFloat, Div 255], Inr out)"
proof -
  from sample_resized obtain r where "resizeBilinear sampleLibs
          \<lparr>shape = [1, 1, 3], dtype = Int32, vals = [Fin 200, Fin 100, Fin 50]\<rparr>
          [224, 224] = Inr r" by blast
  with preprocess_after_drop [OF sample_dropAlpha, of sampleLibs] show ?thesis by simp
qed


section \<open>The threshold\<close>

lemma label_cases: "label ps = ''Cancer'' \<or> label ps = ''Non-cancer''"
  by (simp add: label_def)

lemma predict_Inr: "predict L lm b = (cs, Inr l) \<Longrightarrow> predictTry L lm b = (cs, Inr l)"
  by (auto simp: predict_def split: prod.splits sum.splits)

lemma predictTry_Inr:
  assumes "predictTry L lm b = (cs, Inr l)"
  shows "\<exists>m c1 t c2 x preds. lm = Some m \<and> decodeImage L b = (c1, Inr t) \<and>
           preprocess L t = (c2, Inr x) \<and> m x = Inr preds \<and>
           cs = c1 @ c2 @ [ModelPredict] \<and> l = label preds"
proof -
  obtain c1 r1 where d: "decodeImage L b = (c1, r1)" by (cases "decodeImage L b")
  with assms obtain t where r1: "r1 = Inr t"
    by (cases r1) (auto simp: predictTry_def andThen_def)
  obtain c2 r2 where p: "preprocess L t = (c2, r2)" by (cases "preprocess L t")
  with assms d r1 obtain x where r2: "r2 = Inr x"
    by (cases r2) (auto simp: predictTry_def andThen_def)
  from assms d r1 p r2 obtain m where lm: "lm = Some m"
    by (cases lm) (auto simp: predictTry_def andThen_def infer_def)
  from assms d r1 p r2 lm obtain preds where i: "m x = Inr preds"
    by (cases "m x") (auto simp: predictTry_def andThen_def infer_def call_def)
  from assms d r1 p r2 lm i have "cs = c1 @ c2 @ [ModelPredict] \<and> l = label preds"
    by (auto simp: predictTry_def andThen_def infer_def call_def ok_def)
  with d r1 p r2 lm i show ?thesis by blast
qed

lemma predict_label:
  assumes "decodeImage L b = (c1, Inr t)" and "preprocess L t = (c2, Inr x)"
    and "m x = Inr preds"
  shows "predict L (Some m) b = (c1 @ c2 @ [ModelPredict], Inr (label preds))"
  using assms
  by (simp add: predict_def predictTry_def andThen_def infer_def call_def ok_def)

text \<open>
  C1. \<^verbatim>\<open>predict\<close> returns a label exactly when decoding, preprocessing and the model
  succeed, and the label is then computed from the output of the model: "Cancer" exactly
  when its first element p is greater than 0.5, "Non-cancer" otherwise, so an output of
  exactly 0.5 gives "Non-cancer". There is no third label: \<^verbatim>\<open>predict\<close> returns one
  of the two or throws its fixed error.
\<close>

theorem threshold_strict:
  "(label (Fin p # ps) = ''Cancer'') = (1 / 2 < p)
   \<and> label (Fin p # ps) = (if 1 / 2 < p then ''Cancer'' else ''Non-cancer'')
   \<and> label (Fin (1 / 2) # ps) = ''Non-cancer''
   \<and> (label preds = ''Cancer'' \<or> label preds = ''Non-cancer'')
   \<and> (label preds = ''Cancer'') = js_gt (index preds 0) (1 / 2)
   \<and> snd (predict L lm b) \<in>
        {Inr ''Cancer'', Inr ''Non-cancer'',
         Inl (Error ''Error processing image for prediction.'')}
   \<and> (\<forall>cs l. predict L lm b = (cs, Inr l) \<longrightarrow>
         (\<exists>(m :: model) c1 t c2 x out. lm = Some m \<and> decodeImage L b = (c1, Inr t) \<and>
            preprocess L t = (c2, Inr x) \<and> m x = Inr out \<and>
            cs = c1 @ c2 @ [ModelPredict] \<and> l = label out \<and>
            (l = ''Cancer'') = js_gt (index out 0) (1 / 2)))
   \<and> (\<forall>(m :: model) c1 t c2 x out. decodeImage L b = (c1, Inr t) \<and> preprocess L t = (c2, Inr x) \<and>
         m x = Inr out \<longrightarrow>
         predict L (Some m) b = (c1 @ c2 @ [ModelPredict], Inr (label out)))
   \<and> (\<forall>(m :: model) c1 t c2 x q qs. decodeImage L b = (c1, Inr t) \<and> preprocess L t = (c2, Inr x) \<and>
         m x = Inr (Fin q # qs) \<longrightarrow>
         predict L (Some m) b =
           (c1 @ c2 @ [ModelPredict],
            Inr (if 1 / 2 < q then ''Cancer'' else ''Non-cancer'')))"
proof -
  have a: "(label (Fin p # ps) = ''Cancer'') = (1 / 2 < p)"
    by (simp add: label_def isCancer_def index_def)
  have b: "label (Fin p # ps) = (if 1 / 2 < p then ''Cancer'' else ''Non-cancer'')"
    by (simp add: label_def isCancer_def index_def)
  have c: "label (Fin (1 / 2) # ps) = ''Non-cancer''"
    by (simp add: label_def isCancer_def index_def)
  have d: "label preds = ''Cancer'' \<or> label preds = ''Non-cancer''"
    by (rule label_cases)
  have e: "(label preds = ''Cancer'') = js_gt (index preds 0) (1 / 2)"
    by (simp add: label_def isCancer_def)
  have f: "snd (predict L lm b) \<in>
        {Inr ''Cancer'', Inr ''Non-cancer'',
         Inl (Error ''Error processing image for prediction.'')}"
  proof (cases "predictTry L lm b")
    case (Pair cs r)
    show ?thesis
    proof (cases r)
      case (Inl err)
      with Pair show ?thesis by (simp add: predict_def)
    next
      case (Inr l)
      with Pair have "l = ''Cancer'' \<or> l = ''Non-cancer''"
        using label_cases
        by (auto simp: predictTry_def andThen_def ok_def split: prod.splits sum.splits)
      with Pair Inr show ?thesis by (auto simp: predict_def)
    qed
  qed
  have g: "\<forall>cs l. predict L lm b = (cs, Inr l) \<longrightarrow>
         (\<exists>(m :: model) c1 t c2 x out. lm = Some m \<and> decodeImage L b = (c1, Inr t) \<and>
            preprocess L t = (c2, Inr x) \<and> m x = Inr out \<and>
            cs = c1 @ c2 @ [ModelPredict] \<and> l = label out \<and>
            (l = ''Cancer'') = js_gt (index out 0) (1 / 2))"
  proof (intro allI impI)
    fix cs l assume "predict L lm b = (cs, Inr l)"
    then have "predictTry L lm b = (cs, Inr l)" by (rule predict_Inr)
    from predictTry_Inr [OF this] obtain m c1 t c2 x out where
      h: "lm = Some m" "decodeImage L b = (c1, Inr t)" "preprocess L t = (c2, Inr x)"
         "m x = Inr out" "cs = c1 @ c2 @ [ModelPredict]" "l = label out"
      by blast
    from h(6) have "(l = ''Cancer'') = js_gt (index out 0) (1 / 2)"
      by (simp add: label_def isCancer_def)
    with h show "\<exists>m c1 t c2 x out. lm = Some m \<and> decodeImage L b = (c1, Inr t) \<and>
            preprocess L t = (c2, Inr x) \<and> m x = Inr out \<and>
            cs = c1 @ c2 @ [ModelPredict] \<and> l = label out \<and>
            (l = ''Cancer'') = js_gt (index out 0) (1 / 2)"
      by blast
  qed
  have h: "\<forall>(m :: model) c1 t c2 x out. decodeImage L b = (c1, Inr t) \<and> preprocess L t = (c2, Inr x) \<and>
         m x = Inr out \<longrightarrow>
         predict L (Some m) b = (c1 @ c2 @ [ModelPredict], Inr (label out))"
    using predict_label by blast
  have i: "\<forall>(m :: model) c1 t c2 x q qs. decodeImage L b = (c1, Inr t) \<and> preprocess L t = (c2, Inr x) \<and>
         m x = Inr (Fin q # qs) \<longrightarrow>
         predict L (Some m) b =
           (c1 @ c2 @ [ModelPredict],
            Inr (if 1 / 2 < q then ''Cancer'' else ''Non-cancer''))"
  proof (intro allI impI)
    fix m :: model and c1 t c2 x q qs
    assume "decodeImage L b = (c1, Inr t) \<and> preprocess L t = (c2, Inr x) \<and>
         m x = Inr (Fin q # qs)"
    then have "predict L (Some m) b = (c1 @ c2 @ [ModelPredict], Inr (label (Fin q # qs)))"
      using predict_label by blast
    then show "predict L (Some m) b =
           (c1 @ c2 @ [ModelPredict],
            Inr (if 1 / 2 < q then ''Cancer'' else ''Non-cancer''))"
      by (simp add: label_def isCancer_def index_def)
  qed
  show ?thesis by (intro conjI; fact a b c d e f g h i)
qed

theorem threshold_strict_witness:
  "predict sampleLibs (Some (\<lambda>t. Inr [Fin (9 / 10)])) [137, 80, 78, 71, 200, 100, 50, 255]
     = ([PngRead, Tensor3d [Fin 1, Fin 1, Fin 4], Slice, ResizeBilinear [224, 224],
         ExpandDims 0, ToFloat, Div 255, ModelPredict], Inr ''Cancer'')
   \<and> predict sampleLibs (Some (\<lambda>t. Inr [Fin (1 / 2)])) [137, 80, 78, 71, 200, 100, 50, 255]
     = ([PngRead, Tensor3d [Fin 1, Fin 1, Fin 4], Slice, ResizeBilinear [224, 224],
         ExpandDims 0, ToFloat, Div 255, ModelPredict], Inr ''Non-cancer'')"
proof -
  let ?b = "[137, 80, 78, 71, 200, 100, 50, 255 :: byte]"
  let ?t = "\<lparr>shape = [1, 1, 4], dtype = Int32, vals = [Fin 200, Fin 100, Fin 50, Fin 255]\<rparr>"
  from sample_preprocess obtain x where
    p: "preprocess sampleLibs ?t
          = ([Slice, ResizeBilinear [224, 224], ExpandDims 0, ToFloat, Div 255], Inr x)"
    by blast
  have d: "decodeImage sampleLibs ?b = ([PngRead, Tensor3d [Fin 1, Fin 1, Fin 4]], Inr ?t)"
    by (rule sample_png_decode)
  note th = threshold_strict [of 0 "[]" "[]" sampleLibs None ?b]
  note k = th [THEN conjunct2, THEN conjunct2, THEN conjunct2, THEN conjunct2,
              THEN conjunct2, THEN conjunct2, THEN conjunct2, THEN conjunct2, rule_format]
  have hi: "decodeImage sampleLibs ?b = ([PngRead, Tensor3d [Fin 1, Fin 1, Fin 4]], Inr ?t)
      \<and> preprocess sampleLibs ?t
          = ([Slice, ResizeBilinear [224, 224], ExpandDims 0, ToFloat, Div 255], Inr x)
      \<and> (\<lambda>t. Inr [Fin (9 / 10)]) x = (Inr (Fin (9 / 10) # []) :: js_error + jsnum list)"
    using d p by simp
  have lo: "decodeImage sampleLibs ?b = ([PngRead, Tensor3d [Fin 1, Fin 1, Fin 4]], Inr ?t)
      \<and> preprocess sampleLibs ?t
          = ([Slice, ResizeBilinear [224, 224], ExpandDims 0, ToFloat, Div 255], Inr x)
      \<and> (\<lambda>t. Inr [Fin (1 / 2)]) x = (Inr (Fin (1 / 2) # []) :: js_error + jsnum list)"
    using d p by simp
  from k [OF hi] have 1: "predict sampleLibs (Some (\<lambda>t. Inr [Fin (9 / 10)])) ?b
     = ([PngRead, Tensor3d [Fin 1, Fin 1, Fin 4], Slice, ResizeBilinear [224, 224],
         ExpandDims 0, ToFloat, Div 255, ModelPredict], Inr ''Cancer'')"
    by simp
  from k [OF lo] have 2: "predict sampleLibs (Some (\<lambda>t. Inr [Fin (1 / 2)])) ?b
     = ([PngRead, Tensor3d [Fin 1, Fin 1, Fin 4], Slice, ResizeBilinear [224, 224],
         ExpandDims 0, ToFloat, Div 255, ModelPredict], Inr ''Non-cancer'')"
    by simp
  from 1 2 show ?thesis by blast
qed

section \<open>The routes\<close>

text \<open>
  C8. A request to \<^verbatim>\<open>POST /predict\<close> with no file in the field passes multer with
  \<^verbatim>\<open>req.file\<close> undefined and is answered with status 400 and the body
  \<^verbatim>\<open>{status: 'fail', message: 'No file uploaded'}\<close>; no library is called: neither a
  decoder nor the model.
\<close>

theorem missing_file:
  "uploadSingle L None = Inr None
   \<and> predictHandler L m amb None =
       ([], \<lparr>statusCode = 400,
             body = JsonBody (JObject
               [(''status'', JString ''fail''), (''message'', JString ''No file uploaded'')])\<rparr>)
   \<and> postPredict L m amb None =
       ([], \<lparr>statusCode = 400,
             body = JsonBody (JObject
               [(''status'', JString ''fail''), (''message'', JString ''No file uploaded'')])\<rparr>)"
  by (simp add: uploadSingle_def predictHandler_def postPredict_def)

lemma uploadSingle_Some:
  "uploadSingle L (Some f) =
     (if \<not> startsWith (mimetype f) ''image/'' then Inl (Error ''Only image files are allowed!'')
      else if toLowerCase (extname L (originalname f)) \<notin> set [''.jpg'', ''.jpeg'', ''.png'']
      then Inl (Error ''Only JPG, JPEG, and PNG files are allowed!'')
      else if 1000000 < length (buffer f)
      then Inl (MulterError ''LIMIT_FILE_SIZE'' ''File too large'')
      else Inr (Some f))"
  by (simp add: uploadSingle_def fileFilter_def fileSize_def Let_def)

text \<open>
  C7. An upload is rejected by validation exactly when its MIME type does not start with
  "image/", or its lower-cased extension is none of .jpg, .jpeg, .png, or it has more than
  1,000,000 bytes. Every rejected upload is answered by the error-handling middleware:
  status 400, with status "fail" and the message of the error that rejected it.
\<close>

theorem validation_rejection:
  "(\<exists>err. uploadSingle L (Some f) = Inl err) =
     (\<not> startsWith (mimetype f) ''image/''
      \<or> toLowerCase (extname L (originalname f)) \<notin> set [''.jpg'', ''.jpeg'', ''.png'']
      \<or> 1000000 < length (buffer f))
   \<and> (\<forall>err. uploadSingle L (Some f) = Inl err \<longrightarrow>
         message err =
           (if \<not> startsWith (mimetype f) ''image/'' then ''Only image files are allowed!''
            else if toLowerCase (extname L (originalname f))
                      \<notin> set [''.jpg'', ''.jpeg'', ''.png'']
            then ''Only JPG, JPEG, and PNG files are allowed!''
            else ''File too large'')
       \<and> postPredict L m amb (Some f) = ([], errorMiddleware err)
       \<and> errorMiddleware err =
           \<lparr>statusCode = 400,
            body = JsonBody (JObject
              [(''status'', JString ''fail''), (''message'', JString (message err))])\<rparr>)"
proof -
  have a: "(\<exists>err. uploadSingle L (Some f) = Inl err) =
     (\<not> startsWith (mimetype f) ''image/''
      \<or> toLowerCase (extname L (originalname f)) \<notin> set [''.jpg'', ''.jpeg'', ''.png'']
      \<or> 1000000 < length (buffer f))"
    by (simp add: uploadSingle_Some)
  have b: "\<forall>err. uploadSingle L (Some f) = Inl err \<longrightarrow>
         message err =
           (if \<not> startsWith (mimetype f) ''image/'' then ''Only image files are allowed!''
            else if toLowerCase (extname L (originalname f))
                      \<notin> set [''.jpg'', ''.jpeg'', ''.png'']
            then ''Only JPG, JPEG, and PNG files are allowed!''
            else ''File too large'')
       \<and> postPredict L m amb (Some f) = ([], errorMiddleware err)
       \<and> errorMiddleware err =
           \<lparr>statusCode = 400,
            body = JsonBody (JObject
              [(''status'', JString ''fail''), (''message'', JString (message err))])\<rparr>"
  proof (intro allI impI)
    fix err assume e: "uploadSingle L (Some f) = Inl err"
    then have 1: "message err =
           (if \<not> startsWith (mimetype f) ''image/'' then ''Only image files are allowed!''
            else if toLowerCase (extname L (originalname f))
                      \<notin> set [''.jpg'', ''.jpeg'', ''.png'']
            then ''Only JPG, JPEG, and PNG files are allowed!''
            else ''File too large'')"
      by (auto simp: uploadSingle_Some split: if_splits)
    from e have 2: "postPredict L m amb (Some f) = ([], errorMiddleware err)"
      by (simp add: postPredict_def)
    have 3: "errorMiddleware err =
           \<lparr>statusCode = 400,
            body = JsonBody (JObject
              [(''status'', JString ''fail''), (''message'', JString (message err))])\<rparr>"
      by (simp add: errorMiddleware_def)
    from 1 2 3 show "message err =
           (if \<not> startsWith (mimetype f) ''image/'' then ''Only image files are allowed!''
            else if toLowerCase (extname L (originalname f))
                      \<notin> set [''.jpg'', ''.jpeg'', ''.png'']
            then ''Only JPG, JPEG, and PNG files are allowed!''
            else ''File too large'')
       \<and> postPredict L m amb (Some f) = ([], errorMiddleware err)
       \<and> errorMiddleware err =
           \<lparr>statusCode = 400,
            body = JsonBody (JObject
              [(''status'', JString ''fail''), (''message'', JString (message err))])\<rparr>"
      by blast
  qed
  from a b show ?thesis by blast
qed

lemma sample_ext_upper: "toLowerCase (extname sampleLibs ''scan.PNG'') = ''.png''"
  by (simp add: sampleLibs_def sampleExtname_def toLowerCase_def lowerChar_def char_of_def
      bit_Suc_0_iff)

lemma sample_ext_gif: "toLowerCase (extname sampleLibs ''scan.gif'') = ''.gif''"
  by (simp add: sampleLibs_def sampleExtname_def toLowerCase_def lowerChar_def char_of_def
      bit_Suc_0_iff)

lemma sample_reject_mime:
  "uploadSingle sampleLibs
     (Some \<lparr>mimetype = ''text/plain'', originalname = ''scan.PNG'', buffer = []\<rparr>)
   = Inl (Error ''Only image files are allowed!'')"
  by (simp add: uploadSingle_Some startsWith_def)

lemma sample_reject_ext:
  "uploadSingle sampleLibs
     (Some \<lparr>mimetype = ''image/gif'', originalname = ''scan.gif'', buffer = []\<rparr>)
   = Inl (Error ''Only JPG, JPEG, and PNG files are allowed!'')"
  by (simp add: uploadSingle_Some startsWith_def sample_ext_gif)

lemma sample_reject_size:
  "uploadSingle sampleLibs
     (Some \<lparr>mimetype = ''image/png'', originalname = ''scan.PNG'',
            buffer = replicate 1000001 0\<rparr>)
   = Inl (MulterError ''LIMIT_FILE_SIZE'' ''File too large'')"
  by (simp add: uploadSingle_Some startsWith_def sample_ext_upper)

theorem validation_rejection_witness:
  "postPredict sampleLibs None \<lparr>uuid = ''u'', isoNow = ''t''\<rparr>
     (Some \<lparr>mimetype = ''text/plain'', originalname = ''scan.PNG'', buffer = []\<rparr>)
     = ([], \<lparr>statusCode = 400,
             body = JsonBody (JObject
               [(''status'', JString ''fail''),
                (''message'', JString ''Only image files are allowed!'')])\<rparr>)
   \<and> postPredict sampleLibs None \<lparr>uuid = ''u'', isoNow = ''t''\<rparr>
     (Some \<lparr>mimetype = ''image/gif'', originalname = ''scan.gif'', buffer = []\<rparr>)
     = ([], \<lparr>statusCode = 400,
             body = JsonBody (JObject
               [(''status'', JString ''fail''),
                (''message'', JString ''Only JPG, JPEG, and PNG files are allowed!'')])\<rparr>)
   \<and> postPredict sampleLibs None \<lparr>uuid = ''u'', isoNow = ''t''\<rparr>
     (Some \<lparr>mimetype = ''image/png'', originalname = ''scan.PNG'',
            buffer = replicate 1000001 0\<rparr>)
     = ([], \<lparr>statusCode = 400,
             body = JsonBody (JObject
               [(''status'', JString ''fail''), (''message'', JString ''File too large'')])\<rparr>)"
proof -
  let ?amb = "\<lparr>uuid = ''u'', isoNow = ''t''\<rparr>"
  from validation_rejection
         [of sampleLibs "\<lparr>mimetype = ''text/plain'', originalname = ''scan.PNG'', buffer = []\<rparr>"
             None ?amb]
       sample_reject_mime
  have 1: "postPredict sampleLibs None ?amb
     (Some \<lparr>mimetype = ''text/plain'', originalname = ''scan.PNG'', buffer = []\<rparr>)
     = ([], \<lparr>statusCode = 400,
             body = JsonBody (JObject
               [(''status'', JString ''fail''),
                (''message'', JString ''Only image files are allowed!'')])\<rparr>)"
    by simp
  from validation_rejection
         [of sampleLibs "\<lparr>mimetype = ''image/gif'', originalname = ''scan.gif'', buffer = []\<rparr>"
             None ?amb]
       sample_reject_ext
  have 2: "postPredict sampleLibs None ?amb
     (Some \<lparr>mimetype = ''image/gif'', originalname = ''scan.gif'', buffer = []\<rparr>)
     = ([], \<lparr>statusCode = 400,
             body = JsonBody (JObject
               [(''status'', JString ''fail''),
                (''message'', JString ''Only JPG, JPEG, and PNG files are allowed!'')])\<rparr>)"
    by simp
  from validation_rejection
         [of sampleLibs "\<lparr>mimetype = ''image/png'', originalname = ''scan.PNG'',
            buffer = replicate 1000001 0\<rparr>" None ?amb]
       sample_reject_size
  have 3: "postPredict sampleLibs None ?amb
     (Some \<lparr>mimetype = ''image/png'', originalname = ''scan.PNG'',
            buffer = replicate 1000001 0\<rparr>)
     = ([], \<lparr>statusCode = 400,
             body = JsonBody (JObject
               [(''status'', JString ''fail''), (''message'', JString ''File too large'')])\<rparr>)"
    by simp
  from 1 2 3 show ?thesis by blast
qed

lemma sample_accept:
  "uploadSingle sampleLibs
     (Some \<lparr>mimetype = ''image/jpeg'', originalname = ''scan.jpg'', buffer = b\<rparr>)
   = (if 1000000 < length b then Inl (MulterError ''LIMIT_FILE_SIZE'' ''File too large'')
      else Inr (Some \<lparr>mimetype = ''image/jpeg'', originalname = ''scan.jpg'', buffer = b\<rparr>))"
  by (simp add: uploadSingle_def fileFilter_def fileSize_def Let_def startsWith_def
      sampleLibs_def sampleExtname_def toLowerCase_def lowerChar_def)

lemma sample_decode_fails:
  "predictTry sampleLibs m [] = ([JpegDecode], Inl (Error ''SOI not found''))"
  by (simp add: predictTry_def decodeImage_def isPngHeader_def index_def decodeJpeg_def
      andThen_def call_def sampleLibs_def sampleJpeg_def)

text \<open>
  C3, as stated, fails. A decoder that throws "SOI not found" on an empty upload gives a
  500 response whose \<^verbatim>\<open>error\<close> field is the fixed message of the error that
  \<^verbatim>\<open>predict\<close> throws in its \<^verbatim>\<open>catch\<close>, not the message of the cause.
\<close>

theorem cause_not_in_response:
  "uploadSingle sampleLibs
       (Some \<lparr>mimetype = ''image/jpeg'', originalname = ''scan.jpg'', buffer = []\<rparr>)
     = Inr (Some \<lparr>mimetype = ''image/jpeg'', originalname = ''scan.jpg'', buffer = []\<rparr>)
   \<and> predictTry sampleLibs (Some sampleModel) [] = ([JpegDecode], Inl (Error ''SOI not found''))
   \<and> postPredict sampleLibs (Some sampleModel) \<lparr>uuid = ''u'', isoNow = ''t''\<rparr>
       (Some \<lparr>mimetype = ''image/jpeg'', originalname = ''scan.jpg'', buffer = []\<rparr>)
     = ([JpegDecode],
        \<lparr>statusCode = 500,
         body = JsonBody (JObject
           [(''status'', JString ''fail''),
            (''message'', JString ''Terjadi kesalahan dalam melakukan prediksi''),
            (''error'', JString ''Error processing image for prediction.'')])\<rparr>)
   \<and> body (snd (postPredict sampleLibs (Some sampleModel) \<lparr>uuid = ''u'', isoNow = ''t''\<rparr>
       (Some \<lparr>mimetype = ''image/jpeg'', originalname = ''scan.jpg'', buffer = []\<rparr>)))
     \<noteq> JsonBody (JObject
           [(''status'', JString ''fail''),
            (''message'', JString ''Terjadi kesalahan dalam melakukan prediksi''),
            (''error'', JString (message (Error ''SOI not found'')))])"
  by (simp add: sample_accept sample_decode_fails postPredict_def predictHandler_def predict_def)

text \<open>
  C3, amended. Whenever decoding, preprocessing or inference throws for an upload that
  passed validation, the response is status 500 with status "fail", the generic message,
  and an \<^verbatim>\<open>error\<close> field that is always "Error processing image for prediction.".
\<close>

theorem prediction_failure_response:
  assumes "uploadSingle L part = Inr (Some f)"
    and "predictTry L m (buffer f) = (cs, Inl cause)"
  shows "predict L m (buffer f) = (cs, Inl (Error ''Error processing image for prediction.''))
    \<and> postPredict L m amb part =
      (cs, \<lparr>statusCode = 500,
            body = JsonBody (JObject
              [(''status'', JString ''fail''),
               (''message'', JString ''Terjadi kesalahan dalam melakukan prediksi''),
               (''error'', JString ''Error processing image for prediction.'')])\<rparr>)"
  using assms by (simp add: postPredict_def predictHandler_def predict_def)

theorem prediction_failure_response_witness:
  "uploadSingle sampleLibs
       (Some \<lparr>mimetype = ''image/jpeg'', originalname = ''scan.jpg'', buffer = []\<rparr>)
     = Inr (Some \<lparr>mimetype = ''image/jpeg'', originalname = ''scan.jpg'', buffer = []\<rparr>)
   \<and> predictTry sampleLibs (Some sampleModel)
       (buffer \<lparr>mimetype = ''image/jpeg'', originalname = ''scan.jpg'', buffer = []\<rparr>)
     = ([JpegDecode], Inl (Error ''SOI not found''))
   \<and> postPredict sampleLibs (Some sampleModel) \<lparr>uuid = ''u'', isoNow = ''t''\<rparr>
       (Some \<lparr>mimetype = ''image/jpeg'', originalname = ''scan.jpg'', buffer = []\<rparr>)
     = ([JpegDecode],
        \<lparr>statusCode = 500,
         body = JsonBody (JObject
           [(''status'', JString ''fail''),
            (''message'', JString ''Terjadi kesalahan dalam melakukan prediksi''),
            (''error'', JString ''Error processing image for prediction.'')])\<rparr>)"
proof -
  let ?f = "\<lparr>mimetype = ''image/jpeg'', originalname = ''scan.jpg'', buffer = []\<rparr>"
  have u: "uploadSingle sampleLibs (Some ?f) = Inr (Some ?f)"
    by (simp add: sample_accept)
  have p: "predictTry sampleLibs (Some sampleModel) (buffer ?f)
             = ([JpegDecode], Inl (Error ''SOI not found''))"
    by (simp add: sample_decode_fails)
  from prediction_failure_response [OF u p, of "\<lparr>uuid = ''u'', isoNow = ''t''\<rparr>"] u p
  show ?thesis by blast
qed

section \<open>Requests before the model is loaded\<close>

lemma decodeImage_no_model: "ModelPredict \<notin> set (fst (decodeImage L b))"
  by (auto simp: decodeImage_def decodePng_def decodeJpeg_def andThen_def call_def Let_def
      split: sum.splits prod.splits)

lemma preprocess_no_model: "ModelPredict \<notin> set (fst (preprocess L t))"
  by (auto simp: preprocess_def dropAlpha_def andThen_def call_def ok_def
      split: sum.splits prod.splits if_splits)

lemma predictTry_unloaded:
  "\<exists>cs e. predictTry L None b = (cs, Inl e) \<and> ModelPredict \<notin> set cs"
proof (cases "decodeImage L b")
  case (Pair c1 r1)
  with decodeImage_no_model [of L b] have n1: "ModelPredict \<notin> set c1" by simp
  show ?thesis
  proof (cases r1)
    case (Inl e)
    with Pair n1 show ?thesis by (simp add: predictTry_def andThen_def)
  next
    case (Inr t)
    show ?thesis
    proof (cases "preprocess L t")
      case (Pair c2 r2)
      with preprocess_no_model [of L t] have n2: "ModelPredict \<notin> set c2" by simp
      show ?thesis
      proof (cases r2)
        case (Inl e)
        with Pair \<open>decodeImage L b = (c1, r1)\<close> Inr n1 n2 show ?thesis
          by (simp add: predictTry_def andThen_def)
      next
        case (Inr x)
        with Pair \<open>decodeImage L b = (c1, r1)\<close> \<open>r1 = Inr t\<close> n1 n2 show ?thesis
          by (simp add: predictTry_def andThen_def infer_def)
      qed
    qed
  qed
qed

lemma predictTry_unloaded_TypeError:
  assumes "decodeImage L b = (c1, Inr t)" and "preprocess L t = (c2, Inr x)"
  shows "predictTry L None b = (c1 @ c2, Inl (TypeError ''Cannot read properties of undefined''))"
  using assms by (simp add: predictTry_def andThen_def infer_def)

text \<open>
  C9. While the server is listening and \<^verbatim>\<open>loadedModel\<close> is still undefined, a
  request whose upload passed validation is answered at once with status 500 and status
  "fail": \<^verbatim>\<open>predict\<close> throws its processing error (after a successful decode and
  preprocessing the caught error is the TypeError of the undefined model), the model is
  never called, and the state of the process is unchanged: it has not exited.
\<close>

theorem request_before_model_loaded:
  assumes "listening s" and "exitCode s = None" and "loadedModel s = None"
    and "uploadSingle L part = Inr (Some f)"
  shows "\<exists>cs. step L s (Post part amb) =
           (s, Some (cs, \<lparr>statusCode = 500,
              body = JsonBody (JObject
                [(''status'', JString ''fail''),
                 (''message'', JString ''Terjadi kesalahan dalam melakukan prediksi''),
                 (''error'', JString ''Error processing image for prediction.'')])\<rparr>))
         \<and> ModelPredict \<notin> set cs
         \<and> predict L None (buffer f) =
             (cs, Inl (Error ''Error processing image for prediction.''))
         \<and> (\<forall>c1 t c2 x. decodeImage L (buffer f) = (c1, Inr t) \<and> preprocess L t = (c2, Inr x) \<longrightarrow>
               predictTry L None (buffer f) =
                 (c1 @ c2, Inl (TypeError ''Cannot read properties of undefined'')))"
proof -
  from predictTry_unloaded [of L "buffer f"] obtain cs e
    where t: "predictTry L None (buffer f) = (cs, Inl e)" and n: "ModelPredict \<notin> set cs"
    by blast
  from t have p: "predict L None (buffer f) =
             (cs, Inl (Error ''Error processing image for prediction.''))"
    by (simp add: predict_def)
  from assms p have s: "step L s (Post part amb) =
           (s, Some (cs, \<lparr>statusCode = 500,
              body = JsonBody (JObject
                [(''status'', JString ''fail''),
                 (''message'', JString ''Terjadi kesalahan dalam melakukan prediksi''),
                 (''error'', JString ''Error processing image for prediction.'')])\<rparr>))"
    by (simp add: step_def postPredict_def predictHandler_def)
  from s n p predictTry_unloaded_TypeError [of L "buffer f"] show ?thesis by blast
qed

lemma sample_listening:
  "run sampleLibs boot [Listening] =
     \<lparr>listening = True, loadCalls = 1, loading = True, loadedModel = None, exitCode = None\<rparr>"
  by (simp add: step_def boot_def loadModelStart_def)

theorem request_before_model_loaded_witness:
  "listening (run sampleLibs boot [Listening])
   \<and> exitCode (run sampleLibs boot [Listening]) = None
   \<and> loadedModel (run sampleLibs boot [Listening]) = None
   \<and> uploadSingle sampleLibs
       (Some \<lparr>mimetype = ''image/jpeg'', originalname = ''scan.jpg'', buffer = [1, 1, 20, 100, 50]\<rparr>)
     = Inr (Some \<lparr>mimetype = ''image/jpeg'', originalname = ''scan.jpg'',
                  buffer = [1, 1, 20, 100, 50]\<rparr>)
   \<and> (\<exists>cs. step sampleLibs (run sampleLibs boot [Listening])
         (Post (Some \<lparr>mimetype = ''image/jpeg'', originalname = ''scan.jpg'',
                      buffer = [1, 1, 20, 100, 50]\<rparr>) \<lparr>uuid = ''u'', isoNow = ''t''\<rparr>) =
           (run sampleLibs boot [Listening],
            Some (cs, \<lparr>statusCode = 500,
              body = JsonBody (JObject
                [(''status'', JString ''fail''),
                 (''message'', JString ''Terjadi kesalahan dalam melakukan prediksi''),
                 (''error'', JString ''Error processing image for prediction.'')])\<rparr>))
         \<and> ModelPredict \<notin> set cs)"
proof -
  let ?s = "run sampleLibs boot [Listening]"
  let ?f = "\<lparr>mimetype = ''image/jpeg'', originalname = ''scan.jpg'',
             buffer = [1, 1, 20, 100, 50]\<rparr>"
  have 1: "listening ?s" and 2: "exitCode ?s = None" and 3: "loadedModel ?s = None"
    by (simp_all add: sample_listening del: run.simps)
  have 4: "uploadSingle sampleLibs (Some ?f) = Inr (Some ?f)"
    by (simp add: sample_accept)
  from request_before_model_loaded [OF 1 2 3 4, of "\<lparr>uuid = ''u'', isoNow = ''t''\<rparr>"] 1 2 3 4
  show ?thesis by blast
qed

section \<open>Start-up\<close>

text \<open>
  C2, as stated, fails. \<^verbatim>\<open>loadModel\<close> is called from the callback of
  \<^verbatim>\<open>app.listen\<close>: before the server listens it has not been called at all, and once
  the server listens the load is still pending while a request is already answered.
\<close>

theorem serving_before_model_loaded:
  "\<not> listening boot \<and> loadCalls boot = 0
   \<and> listening (run sampleLibs boot [Listening])
   \<and> loadCalls (run sampleLibs boot [Listening]) = 1
   \<and> loading (run sampleLibs boot [Listening])
   \<and> loadedModel (run sampleLibs boot [Listening]) = None
   \<and> step sampleLibs (run sampleLibs boot [Listening]) Get
       = (run sampleLibs boot [Listening], Some ([], getRoot))"
  by (simp add: step_def boot_def loadModelStart_def)

lemma run_append: "run L s (es @ es') = run L (run L s es) es'"
  by (induction es arbitrary: s) simp_all

lemma step_inv: "startup_inv s \<Longrightarrow> startup_inv (fst (step L s e))"
  by (cases e) (auto simp: startup_inv_def step_def loadModelStart_def loadModelSettle_def
      split: sum.splits)

lemma run_inv: "startup_inv s \<Longrightarrow> startup_inv (run L s es)"
  by (induction es arbitrary: s) (simp_all add: step_inv)

lemma boot_inv: "startup_inv boot"
  by (simp add: startup_inv_def boot_def)

lemma exited_step: "exitCode s \<noteq> None \<Longrightarrow> step L s e = (s, None)"
  by (simp add: step_def)

lemma exited_run: "exitCode s \<noteq> None \<Longrightarrow> run L s es = s"
  by (induction es) (simp_all add: exited_step)

lemma load_rejected:
  assumes "loading s" and "exitCode s = None"
  shows "fst (step L s (LoadSettled (Inl err))) = s\<lparr>exitCode := Some 1, loading := False\<rparr>"
  using assms by (simp add: step_def loadModelSettle_def)

lemma load_resolved:
  assumes "loading s" and "exitCode s = None"
  shows "fst (step L s (LoadSettled (Inr m))) = s\<lparr>loadedModel := Some m, loading := False\<rparr>"
  using assms by (simp add: step_def loadModelSettle_def)

text \<open>
  C2, amended. In every run of the process \<^verbatim>\<open>loadModel\<close> has been called exactly
  once as soon as the server listens and not before, so the load is pending, completed or
  failed only on a listening server. When the pending load fails the process exits with
  code 1: nothing runs afterwards, no request is answered and the load is not tried again.
  When it succeeds \<^verbatim>\<open>loadedModel\<close> holds the model and the process goes on.
\<close>

theorem loader_once_after_listen:
  "loadCalls (run L boot es) = (if listening (run L boot es) then 1 else 0)
   \<and> (loading (run L boot es) \<or> loadedModel (run L boot es) \<noteq> None
        \<or> exitCode (run L boot es) \<noteq> None \<longrightarrow> listening (run L boot es))
   \<and> (loading (run L boot es) \<longrightarrow>
        exitCode (run L boot (es @ [LoadSettled (Inl err)])) = Some 1
      \<and> loadCalls (run L boot (es @ [LoadSettled (Inl err)])) = 1
      \<and> loadedModel (run L boot (es @ [LoadSettled (Inl err)])) = None
      \<and> (\<forall>es'. run L boot (es @ LoadSettled (Inl err) # es')
                  = run L boot (es @ [LoadSettled (Inl err)]))
      \<and> (\<forall>e. step L (run L boot (es @ [LoadSettled (Inl err)])) e
                  = (run L boot (es @ [LoadSettled (Inl err)]), None))
      \<and> loadedModel (run L boot (es @ [LoadSettled (Inr m)])) = Some m
      \<and> exitCode (run L boot (es @ [LoadSettled (Inr m)])) = None)"
proof -
  let ?s = "run L boot es"
  let ?x = "run L boot (es @ [LoadSettled (Inl err)])"
  have inv: "startup_inv ?s" by (rule run_inv [OF boot_inv])
  then have a: "loadCalls ?s = (if listening ?s then 1 else 0)"
    by (simp add: startup_inv_def)
  from inv have b: "loading ?s \<or> loadedModel ?s \<noteq> None \<or> exitCode ?s \<noteq> None \<longrightarrow> listening ?s"
    unfolding startup_inv_def by blast
  have c: "loading ?s \<longrightarrow>
        exitCode ?x = Some 1 \<and> loadCalls ?x = 1 \<and> loadedModel ?x = None
      \<and> (\<forall>es'. run L boot (es @ LoadSettled (Inl err) # es') = ?x)
      \<and> (\<forall>e. step L ?x e = (?x, None))
      \<and> loadedModel (run L boot (es @ [LoadSettled (Inr m)])) = Some m
      \<and> exitCode (run L boot (es @ [LoadSettled (Inr m)])) = None"
  proof
    assume l: "loading ?s"
    with inv have li: "listening ?s" and nm: "loadedModel ?s = None" and ne: "exitCode ?s = None"
      unfolding startup_inv_def by blast+
    have x: "?x = ?s\<lparr>exitCode := Some 1, loading := False\<rparr>"
      using load_rejected [OF l ne, of L err] by (simp add: run_append)
    have y: "run L boot (es @ [LoadSettled (Inr m)]) = ?s\<lparr>loadedModel := Some m, loading := False\<rparr>"
      using load_resolved [OF l ne, of L m] by (simp add: run_append)
    from x have ex: "exitCode ?x \<noteq> None" by simp
    have 1: "exitCode ?x = Some 1" using x by simp
    have 2: "loadCalls ?x = 1" using x a li by simp
    have 3: "loadedModel ?x = None" using x nm by simp
    have 4: "\<forall>es'. run L boot (es @ LoadSettled (Inl err) # es') = ?x"
    proof
      fix es'
      have "run L boot (es @ LoadSettled (Inl err) # es') = run L ?x es'"
        using run_append [of L boot "es @ [LoadSettled (Inl err)]" es'] by simp
      with exited_run [OF ex, of L es'] show "run L boot (es @ LoadSettled (Inl err) # es') = ?x"
        by simp
    qed
    have 5: "\<forall>e. step L ?x e = (?x, None)" using exited_step [OF ex] by blast
    have 6: "loadedModel (run L boot (es @ [LoadSettled (Inr m)])) = Some m" using y by simp
    have 7: "exitCode (run L boot (es @ [LoadSettled (Inr m)])) = None" using y ne by simp
    from 1 2 3 4 5 6 7 show "exitCode ?x = Some 1 \<and> loadCalls ?x = 1 \<and> loadedModel ?x = None
      \<and> (\<forall>es'. run L boot (es @ LoadSettled (Inl err) # es') = ?x)
      \<and> (\<forall>e. step L ?x e = (?x, None))
      \<and> loadedModel (run L boot (es @ [LoadSettled (Inr m)])) = Some m
      \<and> exitCode (run L boot (es @ [LoadSettled (Inr m)])) = None"
      by blast
  qed
  from a b c show ?thesis by blast
qed

theorem loader_once_after_listen_witness:
  "loading (run sampleLibs boot [Listening])
   \<and> listening (run sampleLibs boot [Listening])
   \<and> loadCalls (run sampleLibs boot [Listening]) = 1
   \<and> exitCode (run sampleLibs boot ([Listening] @ [LoadSettled (Inl (Error ''fetch failed''))]))
       = Some 1
   \<and> loadedModel (run sampleLibs boot ([Listening] @ [LoadSettled (Inr sampleModel)]))
       = Some sampleModel"
proof -
  have l: "loading (run sampleLibs boot [Listening])"
    by (simp add: step_def boot_def loadModelStart_def)
  from l loader_once_after_listen
           [of sampleLibs "[Listening]" "Error ''fetch failed''" sampleModel]
  show ?thesis by simp
qed

end
